theory Spec2Isabelle
  imports Main "HOL-Library.Word"
begin

unbundle bit_operations_syntax

section \<open>The console multiplexer of lxc (console.c)\<close>

text \<open>
  A shallow embedding of \<^verbatim>\<open>src/lxc/console.c\<close>. Every function of the source that a
  property below talks about is a HOL function of the same name. What the C code reads
  from the kernel (the return value of a system call, the bytes a \<^verbatim>\<open>read\<close> delivers) is
  an explicit argument of the function that makes the call; what it does to the outside
  (a \<^verbatim>\<open>write\<close>, a \<^verbatim>\<open>close\<close>, a \<^verbatim>\<open>tcsetattr\<close>, a change of the event loop) is
  appended, in program order, to a trace of events.
\<close>

subsection \<open>Data\<close>

type_synonym byte = "8 word"
type_synonym sigset = "int set"

text \<open>\<^verbatim>\<open>struct termios\<close> of the C library; \<^verbatim>\<open>tcflag_t\<close> is an unsigned 32-bit integer,
  \<^verbatim>\<open>cc_t\<close> an unsigned byte.\<close>

record termios =
  c_iflag :: "32 word"
  c_oflag :: "32 word"
  c_cflag :: "32 word"
  c_lflag :: "32 word"
  c_line :: byte
  c_cc :: "nat \<Rightarrow> byte"

text \<open>\<^verbatim>\<open>struct winsize\<close>, copied as a whole by \<^verbatim>\<open>lxc_console_winsz\<close>.\<close>

record winsize =
  ws_row :: "16 word"
  ws_col :: "16 word"

text \<open>\<^verbatim>\<open>struct lxc_tty_state\<close> (console.c, lines 58 to 70). The struct lives on the
  heap; \<open>node\<close> is its address, which is what the registry \<^verbatim>\<open>lxc_ttys\<close> links.
  The two integers \<open>escape\<close> and \<open>saw_escape\<close> are C \<^verbatim>\<open>int\<close>s, the second used
  as a truth value.\<close>

record lxc_tty_state =
  node :: nat
  stdinfd :: int
  stdoutfd :: int
  masterfd :: int
  escape :: int
  saw_escape :: int
  winch_proxy :: "string option"
  winch_proxy_lxcpath :: "string option"
  sigfd :: int
  oldmask :: sigset

text \<open>The callbacks registered with the event loop.\<close>

datatype callback = CbCon | CbSigwinchFd | CbTtyStdin | CbTtyMaster

text \<open>What the code does to the outside, one constructor per call.\<close>

datatype event =
    EvWrite int "byte list"
  | EvClose int
  | EvTcsetattr int termios
  | EvSetWinsz int winsize
  | EvCmdWinch "string option" "string option"
  | EvMainloopOpen
  | EvMainloopAdd int callback
  | EvMainloopDel int
  | EvMainloopRun
  | EvMainloopClose
  | EvCmdConsole string int
  | EvBanner int int
  | EvSetsid

subsection \<open>The stdin pump of the attach driver\<close>

text \<open>The C \<^verbatim>\<open>char c\<close> is compared with an \<^verbatim>\<open>int\<close> after integer promotion. On the
  targets where \<^verbatim>\<open>char\<close> is signed that is the signed reading of the byte; for bytes below
  128, the only ones the properties below feed, the unsigned reading is the same number.\<close>

definition char_to_int :: "byte \<Rightarrow> int" where
  "char_to_int c = sint c"

text \<open>\<^verbatim>\<open>lxc_console_cb_tty_stdin\<close> (lines 632 to 660). \<open>rd\<close> is what
  \<^verbatim>\<open>read(ts->stdinfd, &c, 1)\<close> gives: its return value and the content of \<open>c\<close>
  afterwards; \<open>wr\<close> is what \<^verbatim>\<open>write(ts->masterfd, &c, 1)\<close> returns when the code gets
  there. The result is \<open>None\<close> when the assertion aborts the process, else the
  return value, the tracker as the callback leaves it, and the events.\<close>

definition lxc_console_cb_tty_stdin ::
  "int \<times> byte \<Rightarrow> int \<Rightarrow> int \<Rightarrow> lxc_tty_state \<Rightarrow> (int \<times> lxc_tty_state \<times> event list) option"
where
  "lxc_console_cb_tty_stdin rd wr fd ts =
    (if fd \<noteq> stdinfd ts then None
     else if fst rd < 0 then Some (1, ts, [])
     else if char_to_int (snd rd) = escape ts \<and> saw_escape ts = 0
       then Some (0, ts\<lparr>saw_escape := 1\<rparr>, [])
     else if char_to_int (snd rd) = 113 \<and> saw_escape ts \<noteq> 0
       then Some (1, ts, [])
     else if wr < 0
       then Some (1, ts\<lparr>saw_escape := 0\<rparr>, [EvWrite (masterfd ts) [snd rd]])
     else Some (0, ts\<lparr>saw_escape := 0\<rparr>, [EvWrite (masterfd ts) [snd rd]]))"

text \<open>The callback invoked once per pair of a \<^verbatim>\<open>read\<close> result and a \<^verbatim>\<open>write\<close>
  result, on the tracker the previous invocation left: the return values in order, the
  last tracker and all events. An abort ends the run with \<open>None\<close>.\<close>

fun stdin_invocations ::
  "lxc_tty_state \<Rightarrow> ((int \<times> byte) \<times> int) list \<Rightarrow> (int list \<times> lxc_tty_state \<times> event list) option"
where
  "stdin_invocations ts [] = Some ([], ts, [])"
| "stdin_invocations ts ((rd, wr) # ios) =
     (case lxc_console_cb_tty_stdin rd wr (stdinfd ts) ts of
        None \<Rightarrow> None
      | Some (r, ts', evs) \<Rightarrow>
          (case stdin_invocations ts' ios of
             None \<Rightarrow> None
           | Some (rs, ts'', evs') \<Rightarrow> Some (r # rs, ts'', evs @ evs')))"

subsection \<open>The master pump of the attach driver\<close>

text \<open>\<^verbatim>\<open>lxc_console_cb_tty_master\<close> (lines 662 to 683). \<open>rd\<close> is the return value of
  \<^verbatim>\<open>read(fd, buf, sizeof(buf))\<close> and the content of \<open>buf\<close> afterwards, \<open>wr\<close> the
  return value of \<^verbatim>\<open>write(ts->stdoutfd, buf, r)\<close>. The tracker is not changed.\<close>

definition lxc_console_cb_tty_master ::
  "int \<times> byte list \<Rightarrow> int \<Rightarrow> int \<Rightarrow> lxc_tty_state \<Rightarrow> (int \<times> event list) option"
where
  "lxc_console_cb_tty_master rd wr fd ts =
    (if fd \<noteq> masterfd ts then None
     else if fst rd < 0 then Some (1, [])
     else if wr < 0 \<or> wr \<noteq> fst rd
       then Some (1, [EvWrite (stdoutfd ts) (take (nat (fst rd)) (snd rd))])
     else Some (0, [EvWrite (stdoutfd ts) (take (nat (fst rd)) (snd rd))]))"

subsection \<open>Process state and the answers of the kernel\<close>

text \<open>The part of the process the functions below change: the registry \<^verbatim>\<open>lxc_ttys\<close>
  (the addresses of the linked trackers, head first), the trackers \<^verbatim>\<open>malloc\<close> has handed
  out and \<^verbatim>\<open>free\<close> has not taken back, the signal mask, and the trace of events.\<close>

record sys =
  lxc_ttys :: "nat list"
  allocated :: "nat set"
  sigmask :: sigset
  trace :: "event list"

definition emit :: "event list \<Rightarrow> sys \<Rightarrow> sys" where
  "emit evs s = s\<lparr>trace := trace s @ evs\<rparr>"

text \<open>What the kernel and the C library answer, one field per call site whose result the
  code looks at. A function consults only the fields of the calls it makes.\<close>

record env =
  isatty_r :: "int \<Rightarrow> bool"
  tcgetattr_r :: "int \<Rightarrow> termios option"
  tcsetattr_r :: int
  getwinsz_r :: "int \<Rightarrow> winsize option"
  malloc_ts_r :: "nat option"
  sigprocmask_r :: int
  signalfd_r :: int
  openpty_r :: "(int \<times> int \<times> string) option"
  fcntl_master_r :: int
  fcntl_slave_r :: int
  access_tty_r :: int
  open_tty_r :: int
  open_path_r :: int
  malloc_tios_r :: bool
  open_log_r :: int
  cmd_console_r :: "int \<times> int \<times> int"
  mainloop_open_r :: int
  add_sigfd_r :: int
  add_stdin_r :: int
  add_master_r :: int
  mainloop_r :: int

text \<open>Constants of the system headers (Linux): \<^verbatim>\<open>termbits.h\<close> and \<^verbatim>\<open>signal.h\<close>.\<close>

definition IGNBRK :: "32 word" where "IGNBRK = 0x1"
definition BRKINT :: "32 word" where "BRKINT = 0x2"
definition ISIG :: "32 word" where "ISIG = 0x1"
definition ICANON :: "32 word" where "ICANON = 0x2"
definition ECHO :: "32 word" where "ECHO = 0x8"
definition VTIME :: nat where "VTIME = 5"
definition VMIN :: nat where "VMIN = 6"
definition SIGWINCH :: int where "SIGWINCH = 28"

subsection \<open>Window size\<close>

text \<open>\<^verbatim>\<open>lxc_console_winsz\<close> (lines 83 to 91).\<close>

definition lxc_console_winsz :: "env \<Rightarrow> int \<Rightarrow> int \<Rightarrow> sys \<Rightarrow> sys" where
  "lxc_console_winsz e srcfd dstfd s =
    (if isatty_r e srcfd
     then (case getwinsz_r e srcfd of
             Some wsz \<Rightarrow> emit [EvSetWinsz dstfd wsz] s
           | None \<Rightarrow> s)
     else s)"

subsection \<open>The winsize tracker\<close>

text \<open>Modelled from the spec: \<^verbatim>\<open>lxc_list_add_tail\<close> and \<^verbatim>\<open>lxc_list_del\<close> of list.h,
  which is not among the sources. The spec says that init "adds the tracker to a
  process-wide registry" and that fini "removes from the registry"; the registry is the
  list of the linked nodes, a new node going to its tail.\<close>

definition lxc_list_add_tail :: "nat list \<Rightarrow> nat \<Rightarrow> nat list" where
  "lxc_list_add_tail head n = head @ [n]"

definition lxc_list_del :: "nat list \<Rightarrow> nat \<Rightarrow> nat list" where
  "lxc_list_del head n = removeAll n head"

text \<open>\<^verbatim>\<open>lxc_console_sigwinch_init\<close> (lines 148 to 190). \<^verbatim>\<open>malloc\<close> answers with an
  address or fails; \<^verbatim>\<open>memset\<close> zeroes the struct. A successful
  \<^verbatim>\<open>sigprocmask(SIG_BLOCK, ...)\<close> stores the current mask in \<open>oldmask\<close> and adds
  SIGWINCH to the mask; a failing one changes neither. The restoring
  \<^verbatim>\<open>sigprocmask(SIG_SETMASK, ...)\<close>, whose result the code ignores, sets the mask.\<close>

definition lxc_console_sigwinch_init ::
  "env \<Rightarrow> int \<Rightarrow> int \<Rightarrow> sys \<Rightarrow> lxc_tty_state option \<times> sys"
where
  "lxc_console_sigwinch_init e srcfd dstfd s =
    (case malloc_ts_r e of
       None \<Rightarrow> (None, s)
     | Some p \<Rightarrow>
        (let ts = \<lparr>node = p, stdinfd = srcfd, stdoutfd = 0, masterfd = dstfd, escape = 0,
                   saw_escape = 0, winch_proxy = None, winch_proxy_lxcpath = None,
                   sigfd = - 1, oldmask = {}\<rparr>;
             s1 = s\<lparr>allocated := insert p (allocated s),
                    lxc_ttys := lxc_list_add_tail (lxc_ttys s) p\<rparr>
         in if sigprocmask_r e \<noteq> 0
            then (None, s1\<lparr>lxc_ttys := lxc_list_del (lxc_ttys s1) p,
                            allocated := allocated s1 - {p}\<rparr>)
            else
              (let ts2 = ts\<lparr>oldmask := sigmask s1\<rparr>;
                   s2 = s1\<lparr>sigmask := insert SIGWINCH (sigmask s1)\<rparr>;
                   ts3 = ts2\<lparr>sigfd := signalfd_r e\<rparr>
               in if sigfd ts3 < 0
                  then (None, s2\<lparr>sigmask := oldmask ts3,
                                  lxc_ttys := lxc_list_del (lxc_ttys s2) p,
                                  allocated := allocated s2 - {p}\<rparr>)
                  else (Some ts3, s2))))"

text \<open>\<^verbatim>\<open>lxc_console_sigwinch_fini\<close> (lines 203 to 211).\<close>

definition lxc_console_sigwinch_fini :: "lxc_tty_state \<Rightarrow> sys \<Rightarrow> sys" where
  "lxc_console_sigwinch_fini ts s =
    (let s1 = (if 0 \<le> sigfd ts then emit [EvClose (sigfd ts)] s else s)
     in s1\<lparr>lxc_ttys := lxc_list_del (lxc_ttys s1) (node ts),
            sigmask := oldmask ts,
            allocated := allocated s1 - {node ts}\<rparr>)"

subsection \<open>Terminal modes\<close>

text \<open>\<^verbatim>\<open>setup_tios\<close> (lines 305 to 337). The result is the return value, what the call
  has stored in \<^verbatim>\<open>*oldtios\<close> (\<open>None\<close> when nothing was stored) and the process state;
  the \<^verbatim>\<open>tcsetattr\<close> call is an event that carries the new settings.\<close>

definition raw_tios :: "termios \<Rightarrow> termios" where
  "raw_tios oldtios =
     oldtios\<lparr>c_iflag := (c_iflag oldtios AND NOT IGNBRK) AND BRKINT,
             c_lflag := c_lflag oldtios AND NOT (ECHO OR ICANON OR ISIG),
             c_cc := (c_cc oldtios)(VMIN := 1, VTIME := 0)\<rparr>"

definition setup_tios :: "env \<Rightarrow> int \<Rightarrow> sys \<Rightarrow> int \<times> termios option \<times> sys" where
  "setup_tios e fd s =
    (if \<not> isatty_r e fd then (- 1, None, s)
     else (case tcgetattr_r e fd of
             None \<Rightarrow> (- 1, None, s)
           | Some oldtios \<Rightarrow>
               (let s1 = emit [EvTcsetattr fd (raw_tios oldtios)] s
                in if tcsetattr_r e \<noteq> 0 then (- 1, Some oldtios, s1)
                   else (0, Some oldtios, s1))))"

subsection \<open>Console, tty slots, configuration\<close>

text \<open>\<^verbatim>\<open>struct lxc_pty_info\<close>, \<^verbatim>\<open>struct lxc_tty_info\<close>, \<^verbatim>\<open>struct lxc_console\<close> and the
  fields of \<^verbatim>\<open>struct lxc_conf\<close> that console.c reads (the structs are declared in conf.h;
  the fields are the ones console.c uses). The array \<^verbatim>\<open>pty_info\<close> and its length
  \<^verbatim>\<open>nbtty\<close> are one list. The console's fields \<^verbatim>\<open>name\<close>, \<^verbatim>\<open>master\<close> and \<^verbatim>\<open>slave\<close>
  carry the prefix \<open>con_\<close>, the names without prefix being those of a pty. The tracker
  the console points to is kept by value, its address in its \<open>node\<close>. The back-pointer
  \<^verbatim>\<open>descr\<close> is only handed to the event loop, whose calls are events.\<close>

record lxc_pty_info =
  name :: string
  master :: int
  slave :: int
  busy :: int

record lxc_tty_info =
  pty_info :: "lxc_pty_info list"

definition nbtty :: "lxc_tty_info \<Rightarrow> int" where
  "nbtty ti = int (length (pty_info ti))"

record lxc_console =
  con_slave :: int
  con_master :: int
  peer :: int
  peerpty :: lxc_pty_info
  tty_state :: "lxc_tty_state option"
  path :: "string option"
  log_path :: "string option"
  log_fd :: int
  con_name :: string
  tios :: "termios option"

record lxc_conf =
  is_execute :: int
  rootfs_path :: "string option"
  tty_info :: lxc_tty_info
  console :: lxc_console

record lxc_container =
  cont_name :: string
  config_path :: string

subsection \<open>The console pump\<close>

text \<open>\<^verbatim>\<open>lxc_console_cb_con\<close> (lines 213 to 247). \<open>rd\<close> is the return value of \<^verbatim>\<open>read\<close>
  and the buffer; \<open>wm\<close>, \<open>wl\<close> and \<open>wp\<close> are the return values of the writes to the
  master, to the log and to the peer, each looked at only when that write is made. The
  result is the return value, whether the short-write warning is logged (\<open>w \<noteq> r\<close>), and
  the events.\<close>

definition lxc_console_cb_con ::
  "int \<times> byte list \<Rightarrow> int \<Rightarrow> int \<Rightarrow> int \<Rightarrow> int \<Rightarrow> lxc_console \<Rightarrow> int \<times> bool \<times> event list"
where
  "lxc_console_cb_con rd wm wl wp fd c =
    (let r = fst rd; buf = take (nat (fst rd)) (snd rd) in
     if r < 0 then (1, False, [])
     else if r = 0 then (0, False, [EvMainloopDel fd, EvClose fd])
     else
       (let (w1, evs1) = (if fd = peer c then (wm, [EvWrite (con_master c) buf]) else (r, []));
            (w2, evs2) = (if fd = con_master c \<and> 0 \<le> log_fd c
                          then (wl, evs1 @ [EvWrite (log_fd c) buf]) else (w1, evs1));
            (w3, evs3) = (if fd = con_master c \<and> 0 \<le> peer c
                          then (wp, evs2 @ [EvWrite (peer c) buf]) else (w2, evs2))
        in (0, w3 \<noteq> r, evs3)))"

subsection \<open>The proxy pty of the console\<close>

text \<open>\<^verbatim>\<open>lxc_console_mainloop_add_peer\<close> (lines 249 to 266); a failure to register is only
  logged.\<close>

definition lxc_console_mainloop_add_peer :: "lxc_console \<Rightarrow> sys \<Rightarrow> sys" where
  "lxc_console_mainloop_add_peer c s =
    (let s1 = (if 0 \<le> peer c then emit [EvMainloopAdd (peer c) CbCon] s else s)
     in (case tty_state c of
           Some ts \<Rightarrow> emit [EvMainloopAdd (sigfd ts) CbSigwinchFd] s1
         | None \<Rightarrow> s1))"

text \<open>\<^verbatim>\<open>lxc_console_peer_proxy_free\<close> (lines 339 to 352).\<close>

definition lxc_console_peer_proxy_free :: "lxc_console \<Rightarrow> sys \<Rightarrow> lxc_console \<times> sys" where
  "lxc_console_peer_proxy_free c s =
    (let s1 = (case tty_state c of
                 Some ts \<Rightarrow> lxc_console_sigwinch_fini ts s
               | None \<Rightarrow> s);
         s2 = emit [EvClose (master (peerpty c)), EvClose (slave (peerpty c))] s1
     in (c\<lparr>tty_state := None,
           peerpty := (peerpty c)\<lparr>master := - 1, slave := - 1, busy := - 1, name := []\<rparr>,
           peer := - 1\<rparr>, s2))"

text \<open>\<^verbatim>\<open>lxc_console_peer_proxy_alloc\<close> (lines 354 to 403). A failing \<^verbatim>\<open>openpty\<close> stores
  nothing.\<close>

definition lxc_console_peer_proxy_alloc ::
  "env \<Rightarrow> lxc_console \<Rightarrow> int \<Rightarrow> sys \<Rightarrow> int \<times> lxc_console \<times> sys"
where
  "lxc_console_peer_proxy_alloc e c sockfd s =
    (if con_master c < 0 then (- 1, c, s)
     else if busy (peerpty c) \<noteq> - 1 \<or> peer c \<noteq> - 1 then (- 1, c, s)
     else if tty_state c \<noteq> None then (- 1, c, s)
     else (case openpty_r e of
        None \<Rightarrow> (- 1, c, s)
      | Some (m, sl, nm) \<Rightarrow>
         (let c1 = c\<lparr>peerpty := (peerpty c)\<lparr>master := m, slave := sl, name := nm\<rparr>\<rparr> in
          case setup_tios e (slave (peerpty c1)) s of (r, oldtermio, s1) \<Rightarrow>
            if r < 0
            then (case lxc_console_peer_proxy_free c1 s1 of (c', s') \<Rightarrow> (- 1, c', s'))
            else (case lxc_console_sigwinch_init e (master (peerpty c1)) (con_master c1) s1 of
                (None, s2) \<Rightarrow>
                  (case lxc_console_peer_proxy_free c1 s2 of (c', s') \<Rightarrow> (- 1, c', s'))
              | (Some ts, s2) \<Rightarrow>
                  (let c2 = c1\<lparr>tty_state := Some ts\<rparr>;
                       c3 = c2\<lparr>peer := slave (peerpty c2)\<rparr>;
                       c4 = c3\<lparr>peerpty := (peerpty c3)\<lparr>busy := sockfd\<rparr>\<rparr>
                   in (0, c4, lxc_console_mainloop_add_peer c4 s2))))))"

subsection \<open>The allocator\<close>

text \<open>The search loop of \<^verbatim>\<open>lxc_console_allocate\<close> (lines 438 to 440): from \<open>ttynum\<close> on,
  the first number whose slot is not busy, or \<open>nbtty + 1\<close>.\<close>

function search_tty :: "lxc_pty_info list \<Rightarrow> nat \<Rightarrow> nat" where
  "search_tty ps ttynum =
     (if ttynum \<le> length ps \<and> busy (ps ! (ttynum - 1)) \<noteq> 0
      then search_tty ps (ttynum + 1) else ttynum)"
  by pat_completeness auto
termination
  by (relation "measure (\<lambda>(ps, ttynum). Suc (length ps) - ttynum)") auto

declare search_tty.simps [simp del]

text \<open>The label \<^verbatim>\<open>out_tty\<close> (lines 448 to 452), reached with \<open>1 \<le> ttynum \<le> nbtty\<close>.\<close>

definition out_tty :: "lxc_conf \<Rightarrow> int \<Rightarrow> nat \<Rightarrow> int \<Rightarrow> sys \<Rightarrow> int \<times> int \<times> lxc_conf \<times> sys" where
  "out_tty conf sockfd ttynum ttyreq s =
    (let ps = pty_info (tty_info conf);
         ps' = ps[ttynum - 1 := (ps ! (ttynum - 1))\<lparr>busy := sockfd\<rparr>]
     in (master (ps' ! (ttynum - 1)), ttyreq,
         conf\<lparr>tty_info := (tty_info conf)\<lparr>pty_info := ps'\<rparr>\<rparr>, s))"

text \<open>\<^verbatim>\<open>lxc_console_allocate\<close> (lines 412 to 453). The result is the returned master fd,
  \<^verbatim>\<open>*ttyreq\<close> at return, the configuration and the process state.\<close>

definition lxc_console_allocate ::
  "env \<Rightarrow> lxc_conf \<Rightarrow> int \<Rightarrow> int \<Rightarrow> sys \<Rightarrow> int \<times> int \<times> lxc_conf \<times> sys"
where
  "lxc_console_allocate e conf sockfd ttyreq s =
    (if ttyreq = 0
     then (case lxc_console_peer_proxy_alloc e (console conf) sockfd s of (r, c', s') \<Rightarrow>
             if r < 0 then (- 1, ttyreq, conf\<lparr>console := c'\<rparr>, s')
             else (master (peerpty c'), ttyreq, conf\<lparr>console := c'\<rparr>, s'))
     else if 0 < ttyreq
     then (if nbtty (tty_info conf) < ttyreq then (- 1, ttyreq, conf, s)
           else if busy (pty_info (tty_info conf) ! nat (ttyreq - 1)) \<noteq> 0
           then (- 1, ttyreq, conf, s)
           else out_tty conf sockfd (nat ttyreq) ttyreq s)
     else (let ttynum = search_tty (pty_info (tty_info conf)) 1 in
           if nbtty (tty_info conf) < int ttynum then (- 1, ttyreq, conf, s)
           else out_tty conf sockfd ttynum (int ttynum) s))"

text \<open>The loop of \<^verbatim>\<open>lxc_console_free\<close> (lines 469 to 472), from index \<open>i\<close> on.\<close>

function free_ttys :: "int \<Rightarrow> nat \<Rightarrow> lxc_pty_info list \<Rightarrow> lxc_pty_info list" where
  "free_ttys fd i ps =
     (if i < length ps
      then free_ttys fd (i + 1) (if busy (ps ! i) = fd then ps[i := (ps ! i)\<lparr>busy := 0\<rparr>] else ps)
      else ps)"
  by pat_completeness auto
termination
  by (relation "measure (\<lambda>(fd, i, ps). length ps - i)") auto

declare free_ttys.simps [simp del]

text \<open>What one turn of that loop does to the slot it looks at.\<close>

definition release :: "int \<Rightarrow> lxc_pty_info \<Rightarrow> lxc_pty_info" where
  "release fd p = (if busy p = fd then p\<lparr>busy := 0\<rparr> else p)"

text \<open>\<^verbatim>\<open>lxc_console_free\<close> (lines 463 to 478).\<close>

definition lxc_console_free :: "lxc_conf \<Rightarrow> int \<Rightarrow> sys \<Rightarrow> lxc_conf \<times> sys" where
  "lxc_console_free conf fd s =
    (let conf1 = conf\<lparr>tty_info :=
                   (tty_info conf)\<lparr>pty_info := free_ttys fd 0 (pty_info (tty_info conf))\<rparr>\<rparr>
     in if busy (peerpty (console conf1)) = fd
        then (case lxc_console_peer_proxy_free (console conf1)
                     (emit [EvMainloopDel (slave (peerpty (console conf1)))] s) of
                (c', s') \<Rightarrow> (conf1\<lparr>console := c'\<rparr>, s'))
        else (conf1, s))"

subsection \<open>Creating and deleting the console\<close>

text \<open>\<^verbatim>\<open>lxc_console_peer_default\<close> (lines 480 to 537). \<open>access_tty_r\<close> and
  \<open>open_tty_r\<close> are the results of probing \<^verbatim>\<open>/dev/tty\<close>, \<open>open_path_r\<close> is the
  descriptor the peer is opened on, \<open>malloc_tios_r\<close> says whether the buffer for the
  saved settings could be allocated.\<close>

definition peer_err1 :: "lxc_console \<Rightarrow> sys \<Rightarrow> lxc_console \<times> sys" where
  "peer_err1 c s = (c\<lparr>peer := - 1\<rparr>, emit [EvClose (peer c)] s)"

definition lxc_console_peer_default :: "env \<Rightarrow> lxc_console \<Rightarrow> sys \<Rightarrow> lxc_console \<times> sys" where
  "lxc_console_peer_default e c s =
    (let (path', s0) =
           (if path c = None \<and> access_tty_r e = 0
            then (if 0 \<le> open_tty_r e
                  then (Some ''/dev/tty'', emit [EvClose (open_tty_r e)] s)
                  else (None, s))
            else (path c, s))
     in if path' = None then (c, s0)
        else
          (let c1 = c\<lparr>peer := open_path_r e\<rparr> in
           if peer c1 < 0 then (c1, s0)
           else if \<not> isatty_r e (peer c1) then peer_err1 c1 s0
           else
             (case lxc_console_sigwinch_init e (peer c1) (con_master c1) s0 of (ts, s1) \<Rightarrow>
               (let c2 = c1\<lparr>tty_state := ts\<rparr>;
                    s2 = lxc_console_winsz e (peer c2) (con_master c2) s1
                in if \<not> malloc_tios_r e then peer_err1 (c2\<lparr>tios := None\<rparr>) s2
                   else (case setup_tios e (peer c2) s2 of (r, oldtios, s3) \<Rightarrow>
                           if r < 0 then peer_err1 (c2\<lparr>tios := None\<rparr>) s3
                           else (c2\<lparr>tios := oldtios\<rparr>, s3))))))"

text \<open>\<^verbatim>\<open>lxc_console_delete\<close> (lines 539 to 557).\<close>

definition lxc_console_delete :: "lxc_console \<Rightarrow> sys \<Rightarrow> lxc_console \<times> sys" where
  "lxc_console_delete c s =
    (let s1 = (case tios c of
                 Some t \<Rightarrow> (if 0 \<le> peer c then emit [EvTcsetattr (peer c) t] s else s)
               | None \<Rightarrow> s);
         s2 = emit [EvClose (peer c), EvClose (con_master c), EvClose (con_slave c)] s1;
         s3 = (if 0 \<le> log_fd c then emit [EvClose (log_fd c)] s2 else s2)
     in (c\<lparr>tios := None, peer := - 1, con_master := - 1, con_slave := - 1, log_fd := - 1\<rparr>, s3))"

text \<open>\<^verbatim>\<open>lxc_console_create\<close> (lines 559 to 612).\<close>

definition lxc_console_create :: "env \<Rightarrow> lxc_conf \<Rightarrow> sys \<Rightarrow> int \<times> lxc_conf \<times> sys" where
  "lxc_console_create e conf s =
    (let c = console conf in
     if is_execute conf \<noteq> 0 then (0, conf, s)
     else if rootfs_path conf = None then (0, conf, s)
     else if path c = Some ''none'' then (0, conf, s)
     else (case openpty_r e of
        None \<Rightarrow> (- 1, conf, s)
      | Some (m, sl, nm) \<Rightarrow>
         (let c1 = c\<lparr>con_master := m, con_slave := sl, con_name := nm\<rparr> in
          if fcntl_master_r e \<noteq> 0 \<or> fcntl_slave_r e \<noteq> 0
          then (case lxc_console_delete c1 s of (c', s') \<Rightarrow> (- 1, conf\<lparr>console := c'\<rparr>, s'))
          else (case lxc_console_peer_default e c1 s of (c2, s2) \<Rightarrow>
            if log_path c2 = None then (0, conf\<lparr>console := c2\<rparr>, s2)
            else (let c3 = c2\<lparr>log_fd := open_log_r e\<rparr> in
                  if log_fd c3 < 0
                  then (case lxc_console_delete c3 s2 of
                          (c', s') \<Rightarrow> (- 1, conf\<lparr>console := c'\<rparr>, s'))
                  else (0, conf\<lparr>console := c3\<rparr>, s2))))))"

subsection \<open>The attach driver\<close>

text \<open>The labels \<^verbatim>\<open>err1\<close> to \<^verbatim>\<open>err4\<close> of \<^verbatim>\<open>lxc_console\<close> (lines 773 to 783); each falls
  through to the next.\<close>

definition console_err1 :: "int \<Rightarrow> termios \<Rightarrow> sys \<Rightarrow> sys" where
  "console_err1 stdin_fd oldtios s = emit [EvTcsetattr stdin_fd oldtios] s"

definition console_err2 :: "int \<Rightarrow> int \<Rightarrow> int \<Rightarrow> termios \<Rightarrow> sys \<Rightarrow> sys" where
  "console_err2 master_fd ttyfd stdin_fd oldtios s =
     console_err1 stdin_fd oldtios (emit [EvClose master_fd, EvClose ttyfd] s)"

definition console_err3 :: "lxc_tty_state \<Rightarrow> int \<Rightarrow> int \<Rightarrow> int \<Rightarrow> termios \<Rightarrow> sys \<Rightarrow> sys" where
  "console_err3 ts master_fd ttyfd stdin_fd oldtios s =
     console_err2 master_fd ttyfd stdin_fd oldtios (lxc_console_sigwinch_fini ts s)"

definition console_err4 :: "lxc_tty_state \<Rightarrow> int \<Rightarrow> int \<Rightarrow> int \<Rightarrow> termios \<Rightarrow> sys \<Rightarrow> sys" where
  "console_err4 ts master_fd ttyfd stdin_fd oldtios s =
     console_err3 ts master_fd ttyfd stdin_fd oldtios (emit [EvMainloopClose] s)"

text \<open>\<^verbatim>\<open>lxc_console\<close> (lines 690 to 784). \<open>cmd_console_r\<close> is what \<^verbatim>\<open>lxc_cmd_console\<close>
  returns and stores in \<^verbatim>\<open>ttynum\<close> and \<^verbatim>\<open>masterfd\<close>; the run of the event loop is one
  event and \<open>mainloop_r\<close> its return value. \<^verbatim>\<open>setup_tios\<close> returns 0 only after it
  has stored the old settings, so the branch \<open>None\<close> below is never taken. The result is
  the return value and the process state.\<close>

definition lxc_console ::
  "env \<Rightarrow> lxc_container \<Rightarrow> int \<Rightarrow> int \<Rightarrow> int \<Rightarrow> int \<Rightarrow> int \<Rightarrow> sys \<Rightarrow> int \<times> sys"
where
  "lxc_console e c ttynum stdin_fd stdout_fd stderr_fd esc s =
    (if \<not> isatty_r e stdin_fd then (- 1, s)
     else (case setup_tios e stdin_fd s of (ret0, saved, s1) \<Rightarrow>
       if ret0 \<noteq> 0 then (- 1, s1)
       else (case saved of
          None \<Rightarrow> (- 1, s1)
        | Some oldtios \<Rightarrow>
           (case cmd_console_r e of (ttyfd, ttynum', master_fd) \<Rightarrow>
             if ttyfd < 0
             then (ttyfd, console_err1 stdin_fd oldtios (emit [EvCmdConsole (cont_name c) ttynum] s1))
             else
               (let s2 = emit [EvCmdConsole (cont_name c) ttynum,
                               EvBanner ttynum' esc, EvSetsid] s1 in
                case lxc_console_sigwinch_init e stdin_fd master_fd s2 of
                  (None, s3) \<Rightarrow> (- 1, console_err2 master_fd ttyfd stdin_fd oldtios s3)
                | (Some ts0, s3) \<Rightarrow>
                   (let ts = ts0\<lparr>escape := esc, winch_proxy := Some (cont_name c),
                                 winch_proxy_lxcpath := Some (config_path c)\<rparr>;
                        s4 = lxc_console_winsz e stdin_fd master_fd s3;
                        s5 = emit [EvCmdWinch (winch_proxy ts) (winch_proxy_lxcpath ts)] s4;
                        s6 = emit [EvMainloopOpen] s5
                    in if mainloop_open_r e \<noteq> 0
                       then (mainloop_open_r e,
                             console_err3 ts master_fd ttyfd stdin_fd oldtios s6)
                       else
                        (let s7 = emit [EvMainloopAdd (sigfd ts) CbSigwinchFd] s6 in
                         if add_sigfd_r e \<noteq> 0
                         then (add_sigfd_r e,
                               console_err4 ts master_fd ttyfd stdin_fd oldtios s7)
                         else
                          (let s8 = emit [EvMainloopAdd (stdinfd ts) CbTtyStdin] s7 in
                           if add_stdin_r e \<noteq> 0
                           then (add_stdin_r e,
                                 console_err4 ts master_fd ttyfd stdin_fd oldtios s8)
                           else
                            (let s9 = emit [EvMainloopAdd (masterfd ts) CbTtyMaster] s8 in
                             if add_master_r e \<noteq> 0
                             then (add_master_r e,
                                   console_err4 ts master_fd ttyfd stdin_fd oldtios s9)
                             else
                              (let s10 = emit [EvMainloopRun] s9 in
                               if mainloop_r e \<noteq> 0
                               then (mainloop_r e,
                                     console_err4 ts master_fd ttyfd stdin_fd oldtios s10)
                               else (0, console_err4 ts master_fd ttyfd stdin_fd
                                          oldtios s10)))))))))))"

subsection \<open>Notions used in the statements\<close>

text \<open>The three ways in which \<^verbatim>\<open>lxc_console_sigwinch_init\<close> fails.\<close>

definition sigwinch_init_fails :: "env \<Rightarrow> bool" where
  "sigwinch_init_fails e =
     (malloc_ts_r e = None \<or> sigprocmask_r e \<noteq> 0 \<or> signalfd_r e < 0)"

text \<open>The order in which the attach driver releases what it holds, as its labels give
  it. \<open>stage\<close> counts what has been acquired: 1 the saved terminal settings, 2 the
  descriptors of the command channel, 3 the tracker, 4 the event loop. The loop is closed
  first, then the tracker is torn down (which closes its signal descriptor), then the
  master and the command-channel descriptor are closed, then the terminal settings of
  stdin are restored.\<close>

definition cleanup_events :: "nat \<Rightarrow> int \<Rightarrow> int \<Rightarrow> int \<Rightarrow> int \<Rightarrow> termios \<Rightarrow> event list" where
  "cleanup_events stage sig_fd master_fd ttyfd stdin_fd oldtios =
     (if 4 \<le> stage then [EvMainloopClose] else [])
     @ (if 3 \<le> stage then [EvClose sig_fd] else [])
     @ (if 2 \<le> stage then [EvClose master_fd, EvClose ttyfd] else [])
     @ [EvTcsetattr stdin_fd oldtios]"

text \<open>What the terminal driver does with a break condition (termios(3)): with IGNBRK set
  the break is ignored; with IGNBRK clear and BRKINT set it flushes the queues and sends
  SIGINT to the foreground process group; with both clear it reads as a null byte.\<close>

definition break_raises_sigint :: "termios \<Rightarrow> bool" where
  "break_raises_sigint t = (c_iflag t AND IGNBRK = 0 \<and> c_iflag t AND BRKINT \<noteq> 0)"

text \<open>The invariant the specification states for a console: \<^verbatim>\<open>peerpty.busy >= 0\<close> if and
  only if \<^verbatim>\<open>peer == peerpty.slave\<close> and the console has a tracker.\<close>

definition console_inv :: "lxc_console \<Rightarrow> bool" where
  "console_inv c = ((0 \<le> busy (peerpty c)) = (peer c = slave (peerpty c) \<and> tty_state c \<noteq> None))"

text \<open>"\<open>a\<close> happens before \<open>b\<close>": \<open>b\<close> occurs after the first \<open>a\<close> of the trace.\<close>

definition precedes :: "event \<Rightarrow> event \<Rightarrow> event list \<Rightarrow> bool" where
  "precedes a b evs = (b \<in> set (dropWhile (\<lambda>x. x \<noteq> a) evs))"

subsection \<open>Example inputs\<close>

text \<open>A terminal in cooked mode (\<^verbatim>\<open>BRKINT | ICRNL | IXON\<close>; \<^verbatim>\<open>ISIG | ICANON | ECHO |
  ECHOE | ECHOK\<close>), a kernel that lets every call succeed, and a process with one tracker
  already registered.\<close>

definition cooked_tios :: termios where
  "cooked_tios = \<lparr>c_iflag = 0x502, c_oflag = 0x5, c_cflag = 0xBF, c_lflag = 0x3B,
                   c_line = 0, c_cc = (\<lambda>i. 0)\<rparr>"

definition good_env :: env where
  "good_env = \<lparr>isatty_r = (\<lambda>fd. True), tcgetattr_r = (\<lambda>fd. Some cooked_tios),
     tcsetattr_r = 0, getwinsz_r = (\<lambda>fd. Some \<lparr>ws_row = 24, ws_col = 80\<rparr>),
     malloc_ts_r = Some 5, sigprocmask_r = 0, signalfd_r = 9,
     openpty_r = Some (10, 11, ''/dev/pts/4''), fcntl_master_r = 0, fcntl_slave_r = 0,
     access_tty_r = 0, open_tty_r = 12, open_path_r = 12, malloc_tios_r = True,
     open_log_r = 13, cmd_console_r = (6, 1, 7), mainloop_open_r = 0, add_sigfd_r = 0,
     add_stdin_r = 0, add_master_r = 0, mainloop_r = 0\<rparr>"

definition sys0 :: sys where
  "sys0 = \<lparr>lxc_ttys = [3], allocated = {3}, sigmask = {2, 28}, trace = []\<rparr>"

text \<open>A console that is set up and has no client, and a configuration with two tty slots,
  the first held by the client on descriptor 4.\<close>

definition idle_console :: lxc_console where
  "idle_console = \<lparr>con_slave = 21, con_master = 20, peer = - 1,
     peerpty = \<lparr>name = [], master = - 1, slave = - 1, busy = - 1\<rparr>,
     tty_state = None, path = None, log_path = None, log_fd = - 1,
     con_name = ''/dev/pts/3'', tios = None\<rparr>"

definition conf2 :: lxc_conf where
  "conf2 = \<lparr>is_execute = 0, rootfs_path = Some ''/var/lib/lxc/c1/rootfs'',
     tty_info = \<lparr>pty_info =
       [\<lparr>name = ''/dev/pts/5'', master = 30, slave = 31, busy = 4\<rparr>,
        \<lparr>name = ''/dev/pts/6'', master = 32, slave = 33, busy = 0\<rparr>]\<rparr>,
     console = idle_console\<rparr>"

text \<open>The tracker registered in \<open>sys0\<close>, the console of \<open>conf2\<close> while the client
  on descriptor 4 is attached through a proxy pty, and the console of a container started
  in the foreground, whose peer is the terminal on descriptor 12.\<close>

definition tracker3 :: lxc_tty_state where
  "tracker3 = \<lparr>node = 3, stdinfd = 10, stdoutfd = 0, masterfd = 20, escape = 0,
     saw_escape = 0, winch_proxy = None, winch_proxy_lxcpath = None, sigfd = 9,
     oldmask = {2}\<rparr>"

definition attached_console :: lxc_console where
  "attached_console = idle_console\<lparr>peer := 11,
     peerpty := \<lparr>name = ''/dev/pts/4'', master = 10, slave = 11, busy = 4\<rparr>,
     tty_state := Some tracker3\<rparr>"

definition foreground_console :: lxc_console where
  "foreground_console = idle_console\<lparr>peer := 12,
     tty_state := Some (tracker3\<lparr>stdinfd := 12\<rparr>), path := Some ''/dev/tty'',
     tios := Some cooked_tios\<rparr>"

text \<open>The console of a configuration before \<^verbatim>\<open>lxc_console_create\<close>: no descriptor is
  open, no path and no log are configured.\<close>

definition new_console :: lxc_console where
  "new_console = \<lparr>con_slave = - 1, con_master = - 1, peer = - 1,
     peerpty = \<lparr>name = [], master = - 1, slave = - 1, busy = - 1\<rparr>,
     tty_state = None, path = None, log_path = None, log_fd = - 1,
     con_name = [], tios = None\<rparr>"

text \<open>The container the attach driver is run on in the examples.\<close>

definition cont1 :: lxc_container where
  "cont1 = \<lparr>cont_name = ''c1'', config_path = ''/var/lib/lxc''\<rparr>"

section \<open>Auxiliary facts\<close>

subsection \<open>The search loop of \<^verbatim>\<open>lxc_console_allocate\<close>\<close>

lemma search_tty_first_free:
  assumes "i < length ps" and "busy (ps ! i) = 0"
    and "\<forall>j. k \<le> j \<and> j < i \<longrightarrow> busy (ps ! j) \<noteq> 0" and "k \<le> i"
  shows "search_tty ps (Suc k) = Suc i"
  using assms
proof (induction "i - k" arbitrary: k)
  case 0
  then have "k = i" by simp
  with 0 show ?case by (subst search_tty.simps) simp
next
  case (Suc d)
  then have lt: "k < i" by simp
  with Suc.prems have b: "busy (ps ! k) \<noteq> 0" by simp
  have "search_tty ps (Suc (Suc k)) = Suc i"
    using Suc.hyps(1) [of "Suc k"] Suc.hyps(2) Suc.prems lt by simp
  with b lt Suc.prems(1) show ?case by (subst search_tty.simps) simp
qed

lemma search_tty_all_busy:
  assumes "\<forall>j. k \<le> j \<and> j < length ps \<longrightarrow> busy (ps ! j) \<noteq> 0" and "k \<le> length ps"
  shows "search_tty ps (Suc k) = Suc (length ps)"
  using assms
proof (induction "length ps - k" arbitrary: k)
  case 0
  then have "k = length ps" by simp
  then show ?case by (subst search_tty.simps) simp
next
  case (Suc d)
  then have lt: "k < length ps" by simp
  with Suc.prems have b: "busy (ps ! k) \<noteq> 0" by simp
  have "search_tty ps (Suc (Suc k)) = Suc (length ps)"
    using Suc.hyps(1) [of "Suc k"] Suc.hyps(2) Suc.prems lt by simp
  with b lt show ?case by (subst search_tty.simps) simp
qed

subsection \<open>The loop and the teardown of \<^verbatim>\<open>lxc_console_free\<close>\<close>

lemma free_ttys_from:
  "free_ttys fd i ps = take i ps @ map (release fd) (drop i ps)"
proof (induction fd i ps rule: free_ttys.induct)
  case (1 fd i ps)
  show ?case
  proof (cases "i < length ps")
    case False
    then show ?thesis by (subst free_ttys.simps) simp
  next
    case True
    let ?ps' = "if busy (ps ! i) = fd then ps[i := (ps ! i)\<lparr>busy := 0\<rparr>] else ps"
    have step: "free_ttys fd i ps = free_ttys fd (i + 1) ?ps'"
      using True by (subst free_ttys.simps) simp
    have ih: "free_ttys fd (i + 1) ?ps' = take (i + 1) ?ps' @ map (release fd) (drop (i + 1) ?ps')"
      using "1.IH" [OF True] .
    have tk: "take (i + 1) ?ps' = take i ps @ [release fd (ps ! i)]"
      using True by (simp add: release_def take_Suc_conv_app_nth)
    have dr: "drop (i + 1) ?ps' = drop (i + 1) ps"
      by simp
    have "drop i ps = ps ! i # drop (i + 1) ps"
      using True by (simp add: Cons_nth_drop_Suc)
    with step ih tk dr show ?thesis by simp
  qed
qed

lemma free_ttys_map: "free_ttys fd 0 ps = map (release fd) ps"
  by (simp add: free_ttys_from)

lemma release_idem: "release fd (release fd p) = release fd p"
  by (simp add: release_def)

lemma free_ttys_idem: "free_ttys fd 0 (free_ttys fd 0 ps) = free_ttys fd 0 ps"
  by (simp add: free_ttys_map release_idem)

lemma proxy_free_fields:
  "fst (lxc_console_peer_proxy_free c s)
     = c\<lparr>tty_state := None, peerpty := \<lparr>name = [], master = - 1, slave = - 1, busy = - 1\<rparr>,
         peer := - 1\<rparr>"
  by (simp add: lxc_console_peer_proxy_free_def Let_def)

lemma sigwinch_fini_trace:
  "trace (lxc_console_sigwinch_fini ts s)
     = trace s @ (if 0 \<le> sigfd ts then [EvClose (sigfd ts)] else [])"
  by (simp add: lxc_console_sigwinch_fini_def emit_def Let_def)

lemma proxy_free_trace:
  "trace (snd (lxc_console_peer_proxy_free c s))
     = trace s
       @ (case tty_state c of
            Some ts \<Rightarrow> (if 0 \<le> sigfd ts then [EvClose (sigfd ts)] else [])
          | None \<Rightarrow> [])
       @ [EvClose (master (peerpty c)), EvClose (slave (peerpty c))]"
  by (simp add: lxc_console_peer_proxy_free_def Let_def emit_def sigwinch_fini_trace
      split: option.splits)

lemma proxy_free_again:
  "lxc_console_peer_proxy_free (fst (lxc_console_peer_proxy_free c s)) s'
     = (fst (lxc_console_peer_proxy_free c s), emit [EvClose (- 1), EvClose (- 1)] s')"
  by (simp add: lxc_console_peer_proxy_free_def Let_def)

lemma free_conf:
  "fst (lxc_console_free conf fd s)
     = conf\<lparr>tty_info := (tty_info conf)\<lparr>pty_info := free_ttys fd 0 (pty_info (tty_info conf))\<rparr>,
            console := (if busy (peerpty (console conf)) = fd
                        then fst (lxc_console_peer_proxy_free (console conf)
                               (emit [EvMainloopDel (slave (peerpty (console conf)))] s))
                        else console conf)\<rparr>"
  by (simp add: lxc_console_free_def Let_def split: prod.splits)

subsection \<open>The tracker's initialisation\<close>

lemma sigwinch_init_cases:
  assumes "lxc_console_sigwinch_init e a b s = (r, s')"
  shows "trace s' = trace s"
    and "(r = None) = sigwinch_init_fails e"
    and "r = Some ts \<Longrightarrow> sigfd ts = signalfd_r e \<and> 0 \<le> sigfd ts \<and> stdinfd ts = a
           \<and> masterfd ts = b \<and> oldmask ts = sigmask s \<and> malloc_ts_r e = Some (node ts)"
  using assms
  by (auto simp add: lxc_console_sigwinch_init_def sigwinch_init_fails_def Let_def
      split: option.splits if_splits)

lemma winsz_trace:
  "trace (lxc_console_winsz e a b s)
     = trace s @ (if isatty_r e a
                  then (case getwinsz_r e a of Some w \<Rightarrow> [EvSetWinsz b w] | None \<Rightarrow> [])
                  else [])"
  by (simp add: lxc_console_winsz_def emit_def split: option.splits)

lemma console_err_traces:
  "trace (console_err1 i t s) = trace s @ cleanup_events 1 sg m f i t"
  "trace (console_err2 m f i t s) = trace s @ cleanup_events 2 sg m f i t"
  "0 \<le> sigfd ts \<Longrightarrow>
     trace (console_err3 ts m f i t s) = trace s @ cleanup_events 3 (sigfd ts) m f i t"
  "0 \<le> sigfd ts \<Longrightarrow>
     trace (console_err4 ts m f i t s) = trace s @ cleanup_events 4 (sigfd ts) m f i t"
  by (simp_all add: console_err1_def console_err2_def console_err3_def console_err4_def
      cleanup_events_def emit_def sigwinch_fini_trace)

subsection \<open>The console invariant\<close>

lemma proxy_free_inv: "console_inv (fst (lxc_console_peer_proxy_free c s))"
  by (simp add: proxy_free_fields console_inv_def)

lemma proxy_alloc_result:
  "fst (snd (lxc_console_peer_proxy_alloc e c sockfd s)) = c
   \<or> (\<exists>c1 s1. fst (snd (lxc_console_peer_proxy_alloc e c sockfd s))
                  = fst (lxc_console_peer_proxy_free c1 s1))
   \<or> (fst (lxc_console_peer_proxy_alloc e c sockfd s) = 0
      \<and> tty_state (fst (snd (lxc_console_peer_proxy_alloc e c sockfd s))) \<noteq> None
      \<and> peer (fst (snd (lxc_console_peer_proxy_alloc e c sockfd s)))
          = slave (peerpty (fst (snd (lxc_console_peer_proxy_alloc e c sockfd s))))
      \<and> busy (peerpty (fst (snd (lxc_console_peer_proxy_alloc e c sockfd s)))) = sockfd)"
  unfolding lxc_console_peer_proxy_alloc_def Let_def
  by (auto split: option.splits prod.splits simp del: proxy_free_fields)

lemma proxy_alloc_success:
  assumes "fst (lxc_console_peer_proxy_alloc e c sockfd s) = 0"
  shows "tty_state (fst (snd (lxc_console_peer_proxy_alloc e c sockfd s))) \<noteq> None
      \<and> peer (fst (snd (lxc_console_peer_proxy_alloc e c sockfd s)))
          = slave (peerpty (fst (snd (lxc_console_peer_proxy_alloc e c sockfd s))))
      \<and> busy (peerpty (fst (snd (lxc_console_peer_proxy_alloc e c sockfd s)))) = sockfd"
  using assms unfolding lxc_console_peer_proxy_alloc_def Let_def
  by (auto split: option.splits prod.splits if_splits)

lemma proxy_alloc_inv:
  assumes "console_inv c" and "0 \<le> sockfd"
  shows "console_inv (fst (snd (lxc_console_peer_proxy_alloc e c sockfd s)))"
  using proxy_alloc_result [of e c sockfd s] assms
  by (auto simp add: proxy_free_inv) (simp add: console_inv_def)

lemma allocate_console:
  "console (fst (snd (snd (lxc_console_allocate e conf sockfd ttyreq s))))
     = (if ttyreq = 0 then fst (snd (lxc_console_peer_proxy_alloc e (console conf) sockfd s))
        else console conf)"
  by (simp add: lxc_console_allocate_def out_tty_def Let_def split: prod.splits)

lemma free_console:
  "console (fst (lxc_console_free conf fd s))
     = (if busy (peerpty (console conf)) = fd
        then fst (lxc_console_peer_proxy_free (console conf)
                    (emit [EvMainloopDel (slave (peerpty (console conf)))] s))
        else console conf)"
  by (simp add: free_conf)

lemma peer_default_inv:
  assumes "peer c = - 1" and "busy (peerpty c) = - 1" and "slave (peerpty c) = - 1"
    and "tty_state c = None"
    and "malloc_tios_r e" and "tcgetattr_r e (open_path_r e) \<noteq> None" and "tcsetattr_r e = 0"
  shows "console_inv (fst (lxc_console_peer_default e c s))
       \<and> log_path (fst (lxc_console_peer_default e c s)) = log_path c"
  using assms unfolding lxc_console_peer_default_def Let_def peer_err1_def setup_tios_def
    console_inv_def
  by (auto split: option.splits prod.splits if_splits)

lemma create_inv:
  assumes "peer (console conf) = - 1" and "busy (peerpty (console conf)) = - 1"
    and "slave (peerpty (console conf)) = - 1" and "tty_state (console conf) = None"
    and "malloc_tios_r e" and "tcgetattr_r e (open_path_r e) \<noteq> None" and "tcsetattr_r e = 0"
    and "fst (lxc_console_create e conf s) = 0"
  shows "console_inv (console (fst (snd (lxc_console_create e conf s))))"
proof -
  have base: "console_inv (console conf)"
    using assms(1-4) by (simp add: console_inv_def)
  have pd: "console_inv c'" if "lxc_console_peer_default e
              ((console conf)\<lparr>con_master := m, con_slave := sl, con_name := nm\<rparr>) s = (c', s')"
    for m sl nm c' s'
    using peer_default_inv [of "(console conf)\<lparr>con_master := m, con_slave := sl, con_name := nm\<rparr>" e s]
      assms(1-7) that by simp
  have logfd: "console_inv (c\<lparr>log_fd := x\<rparr>) = console_inv c" for c x
    by (simp add: console_inv_def)
  show ?thesis
    using assms(8) base pd
    unfolding lxc_console_create_def Let_def
    by (auto split: option.splits prod.splits if_splits simp add: logfd)
qed

section \<open>Properties\<close>

text \<open>
  C1. The stdin pump with escape byte 1 and \<open>saw_escape\<close> initially false, fed the bytes
  0x01, 0x01, 'x' (0x78), 0x01, 'q' (0x71) one byte per invocation (every read delivers
  its byte, the two writes that happen do not fail): exactly two bytes are written, both
  to the tracker's \<open>masterfd\<close>, 0x01 and then 'x'; the first four invocations return 0
  (keep the loop alive) and the fifth, on 'q' with \<open>saw_escape\<close> set, returns 1
  (terminate the loop) and writes nothing.
\<close>

theorem C1_escape_sequence:
  assumes "0 \<le> w2" and "0 \<le> w3"
  shows "stdin_invocations (ts\<lparr>escape := 1, saw_escape := 0\<rparr>)
             [((1, 0x01), w1), ((1, 0x01), w2), ((1, 0x78), w3), ((1, 0x01), w4), ((1, 0x71), w5)]
           = Some ([0, 0, 0, 0, 1], ts\<lparr>escape := 1, saw_escape := 1\<rparr>,
                   [EvWrite (masterfd ts) [0x01], EvWrite (masterfd ts) [0x78]])
         \<and> stdin_invocations (ts\<lparr>escape := 1, saw_escape := 0\<rparr>)
             [((1, 0x01), w1), ((1, 0x01), w2), ((1, 0x78), w3), ((1, 0x01), w4)]
           = Some ([0, 0, 0, 0], ts\<lparr>escape := 1, saw_escape := 1\<rparr>,
                   [EvWrite (masterfd ts) [0x01], EvWrite (masterfd ts) [0x78]])
         \<and> lxc_console_cb_tty_stdin (1, 0x71) w5 (stdinfd ts) (ts\<lparr>escape := 1, saw_escape := 1\<rparr>)
           = Some (1, ts\<lparr>escape := 1, saw_escape := 1\<rparr>, [])"
  using assms by (simp add: lxc_console_cb_tty_stdin_def char_to_int_def)

text \<open>The run on a tracker whose descriptors are 0 (stdin) and 7 (master).\<close>

theorem C1_escape_sequence_witness:
  "stdin_invocations
       (\<lparr>node = 0, stdinfd = 0, stdoutfd = 1, masterfd = 7, escape = 0, saw_escape = 1,
         winch_proxy = None, winch_proxy_lxcpath = None, sigfd = 9, oldmask = {}\<rparr>
          \<lparr>escape := 1, saw_escape := 0\<rparr>)
       [((1, 0x01), 1), ((1, 0x01), 1), ((1, 0x78), 1), ((1, 0x01), 1), ((1, 0x71), 1)]
     = Some ([0, 0, 0, 0, 1],
         \<lparr>node = 0, stdinfd = 0, stdoutfd = 1, masterfd = 7, escape = 1, saw_escape = 1,
          winch_proxy = None, winch_proxy_lxcpath = None, sigfd = 9, oldmask = {}\<rparr>,
         [EvWrite 7 [0x01], EvWrite 7 [0x78]])"
  using C1_escape_sequence [of 1 1
      "\<lparr>node = 0, stdinfd = 0, stdoutfd = 1, masterfd = 7, escape = 0, saw_escape = 1,
        winch_proxy = None, winch_proxy_lxcpath = None, sigfd = 9, oldmask = {}\<rparr>" 1 1 1]
  by simp

text \<open>
  C2, as amended. For a descriptor that is a tty, whose settings can be read and on which
  \<^verbatim>\<open>tcsetattr\<close> succeeds, \<^verbatim>\<open>setup_tios\<close> returns 0, hands back the old settings and
  sets new ones in which ECHO, ICANON and ISIG are cleared in \<open>c_lflag\<close>,
  \<open>c_cc[VMIN]\<close> is 1, \<open>c_cc[VTIME]\<close> is 0 and IGNBRK is cleared in \<open>c_iflag\<close>.
\<close>

theorem C2_setup_tios_raw:
  assumes "isatty_r e fd" and "tcgetattr_r e fd = Some oldtios" and "tcsetattr_r e = 0"
  shows "setup_tios e fd s = (0, Some oldtios, emit [EvTcsetattr fd (raw_tios oldtios)] s)
       \<and> c_lflag (raw_tios oldtios) AND ECHO = 0
       \<and> c_lflag (raw_tios oldtios) AND ICANON = 0
       \<and> c_lflag (raw_tios oldtios) AND ISIG = 0
       \<and> c_cc (raw_tios oldtios) VMIN = 1
       \<and> c_cc (raw_tios oldtios) VTIME = 0
       \<and> c_iflag (raw_tios oldtios) AND IGNBRK = 0"
proof -
  have ret: "setup_tios e fd s = (0, Some oldtios, emit [EvTcsetattr fd (raw_tios oldtios)] s)"
    using assms by (simp add: setup_tios_def)
  have lflag: "c_lflag (raw_tios oldtios) AND ECHO = 0"
       "c_lflag (raw_tios oldtios) AND ICANON = 0"
       "c_lflag (raw_tios oldtios) AND ISIG = 0"
    by (auto simp add: raw_tios_def bit_eq_iff bit_simps)
  have iflag: "c_iflag (raw_tios oldtios) AND IGNBRK = 0"
    by (auto simp add: raw_tios_def bit_eq_iff bit_simps)
  have cc: "c_cc (raw_tios oldtios) VMIN = 1" "c_cc (raw_tios oldtios) VTIME = 0"
    by (simp_all add: raw_tios_def VMIN_def VTIME_def)
  from ret lflag iflag cc show ?thesis by blast
qed

text \<open>The new settings of the cooked terminal: of the input flags only BRKINT is left,
  ISIG, ICANON and ECHO are gone from the local flags (\<open>0x3B\<close> becomes \<open>0x30\<close>).\<close>

theorem C2_setup_tios_raw_witness:
  "setup_tios good_env 0 sys0
     = (0, Some cooked_tios,
        sys0\<lparr>trace := [EvTcsetattr 0 \<lparr>c_iflag = 0x2, c_oflag = 0x5, c_cflag = 0xBF,
           c_lflag = 0x30, c_line = 0, c_cc = (\<lambda>i. 0)(6 := 1, 5 := 0)\<rparr>]\<rparr>)"
proof -
  have r: "raw_tios cooked_tios = \<lparr>c_iflag = 0x2, c_oflag = 0x5, c_cflag = 0xBF,
           c_lflag = 0x30, c_line = 0, c_cc = (\<lambda>i. 0)(6 := 1, 5 := 0)\<rparr>"
    by (simp add: raw_tios_def cooked_tios_def IGNBRK_def BRKINT_def ECHO_def ICANON_def
        ISIG_def VMIN_def VTIME_def)
  show ?thesis
    using C2_setup_tios_raw [of good_env 0 cooked_tios sys0]
    by (simp add: good_env_def r emit_def sys0_def)
qed

text \<open>Of the input flags the new settings keep the bit BRKINT and nothing else.\<close>

lemma raw_tios_iflag: "c_iflag (raw_tios oldtios) = c_iflag oldtios AND BRKINT"
  by (auto simp add: raw_tios_def IGNBRK_def BRKINT_def bit_eq_iff bit_simps)

text \<open>As the specification states it, the property fails twice. Descriptor 0 is a tty
  whose settings can be read, and yet \<^verbatim>\<open>setup_tios\<close> returns -1 when \<^verbatim>\<open>tcsetattr\<close>
  fails. And when the call succeeds on the cooked terminal, whose BRKINT is set, the new
  settings still turn a break into SIGINT.\<close>

theorem C2_setup_tios_counterexample:
  "isatty_r (good_env\<lparr>tcsetattr_r := - 1\<rparr>) 0
   \<and> tcgetattr_r (good_env\<lparr>tcsetattr_r := - 1\<rparr>) 0 = Some cooked_tios
   \<and> fst (setup_tios (good_env\<lparr>tcsetattr_r := - 1\<rparr>) 0 sys0) = - 1
   \<and> setup_tios good_env 0 sys0
       = (0, Some cooked_tios, emit [EvTcsetattr 0 (raw_tios cooked_tios)] sys0)
   \<and> break_raises_sigint (raw_tios cooked_tios)"
  by (simp add: setup_tios_def good_env_def break_raises_sigint_def raw_tios_iflag
      cooked_tios_def BRKINT_def IGNBRK_def)

text \<open>
  C3. When the read on the master returns 0 (end of file) and the write of those zero
  bytes returns 0, \<^verbatim>\<open>lxc_console_cb_tty_master\<close> returns 0, which keeps the loop alive.
\<close>

theorem C3_master_eof_keeps_loop:
  "lxc_console_cb_tty_master (0, buf) 0 (masterfd ts) ts = Some (0, [EvWrite (stdoutfd ts) []])"
  by (simp add: lxc_console_cb_tty_master_def)

text \<open>The rest of the sentence holds: a failing read, a failing write and a short write
  end the loop.\<close>

lemma cb_tty_master_error_terminates:
  assumes "fst rd < 0 \<or> wr < 0 \<or> wr \<noteq> fst rd"
  shows "\<exists>evs. lxc_console_cb_tty_master rd wr (masterfd ts) ts = Some (1, evs)"
  using assms by (auto simp add: lxc_console_cb_tty_master_def)

text \<open>
  C4, as amended. Once stdin is in raw mode, every exit of the attach driver releases
  what it has acquired in this order: the event loop is closed first, then the tracker
  is torn down, then the master descriptor and the command-channel descriptor are closed,
  then the terminal settings of stdin are restored. After a partial set-up only the
  resources already acquired are released, in the same order: nothing but the settings
  when the command channel fails, the descriptors and the settings when the tracker cannot
  be created, and everything but the loop when the loop cannot be opened.
\<close>

theorem C4_attach_cleanup_order:
  fixes e :: env and c :: lxc_container and s :: sys and oldtios :: termios
    and ttynum stdin_fd stdout_fd stderr_fd esc ttyfd tn mfd :: int
  assumes tty: "isatty_r e stdin_fd" and get: "tcgetattr_r e stdin_fd = Some oldtios"
    and set: "tcsetattr_r e = 0" and cmd: "cmd_console_r e = (ttyfd, tn, mfd)"
  defines "r \<equiv> lxc_console e c ttynum stdin_fd stdout_fd stderr_fd esc s"
    and "raw \<equiv> [EvTcsetattr stdin_fd (raw_tios oldtios), EvCmdConsole (cont_name c) ttynum]"
    and "att \<equiv> [EvBanner tn esc, EvSetsid]"
    and "wz \<equiv> (case getwinsz_r e stdin_fd of Some w \<Rightarrow> [EvSetWinsz mfd w] | None \<Rightarrow> [])
               @ [EvCmdWinch (Some (cont_name c)) (Some (config_path c)), EvMainloopOpen]"
    and "sg \<equiv> signalfd_r e"
  shows "(ttyfd < 0 \<longrightarrow>
            fst r = ttyfd
          \<and> trace (snd r) = trace s @ raw @ cleanup_events 1 sg mfd ttyfd stdin_fd oldtios)
       \<and> (0 \<le> ttyfd \<and> sigwinch_init_fails e \<longrightarrow>
            fst r = - 1
          \<and> trace (snd r) = trace s @ raw @ att @ cleanup_events 2 sg mfd ttyfd stdin_fd oldtios)
       \<and> (0 \<le> ttyfd \<and> \<not> sigwinch_init_fails e \<and> mainloop_open_r e \<noteq> 0 \<longrightarrow>
            fst r = mainloop_open_r e
          \<and> trace (snd r) = trace s @ raw @ att @ wz
                             @ cleanup_events 3 sg mfd ttyfd stdin_fd oldtios)
       \<and> (0 \<le> ttyfd \<and> \<not> sigwinch_init_fails e \<and> mainloop_open_r e = 0
            \<and> add_sigfd_r e \<noteq> 0 \<longrightarrow>
            fst r = add_sigfd_r e
          \<and> trace (snd r) = trace s @ raw @ att @ wz @ [EvMainloopAdd sg CbSigwinchFd]
                             @ cleanup_events 4 sg mfd ttyfd stdin_fd oldtios)
       \<and> (0 \<le> ttyfd \<and> \<not> sigwinch_init_fails e \<and> mainloop_open_r e = 0
            \<and> add_sigfd_r e = 0 \<and> add_stdin_r e \<noteq> 0 \<longrightarrow>
            fst r = add_stdin_r e
          \<and> trace (snd r) = trace s @ raw @ att @ wz
                             @ [EvMainloopAdd sg CbSigwinchFd, EvMainloopAdd stdin_fd CbTtyStdin]
                             @ cleanup_events 4 sg mfd ttyfd stdin_fd oldtios)
       \<and> (0 \<le> ttyfd \<and> \<not> sigwinch_init_fails e \<and> mainloop_open_r e = 0
            \<and> add_sigfd_r e = 0 \<and> add_stdin_r e = 0 \<and> add_master_r e \<noteq> 0 \<longrightarrow>
            fst r = add_master_r e
          \<and> trace (snd r) = trace s @ raw @ att @ wz
                             @ [EvMainloopAdd sg CbSigwinchFd, EvMainloopAdd stdin_fd CbTtyStdin,
                                EvMainloopAdd mfd CbTtyMaster]
                             @ cleanup_events 4 sg mfd ttyfd stdin_fd oldtios)
       \<and> (0 \<le> ttyfd \<and> \<not> sigwinch_init_fails e \<and> mainloop_open_r e = 0
            \<and> add_sigfd_r e = 0 \<and> add_stdin_r e = 0 \<and> add_master_r e = 0 \<longrightarrow>
            fst r = mainloop_r e
          \<and> trace (snd r) = trace s @ raw @ att @ wz
                             @ [EvMainloopAdd sg CbSigwinchFd, EvMainloopAdd stdin_fd CbTtyStdin,
                                EvMainloopAdd mfd CbTtyMaster, EvMainloopRun]
                             @ cleanup_events 4 sg mfd ttyfd stdin_fd oldtios)"
proof -
  let ?s1 = "emit [EvTcsetattr stdin_fd (raw_tios oldtios)] s"
  let ?s2 = "emit [EvCmdConsole (cont_name c) ttynum, EvBanner tn esc, EvSetsid] ?s1"
  have tios: "setup_tios e stdin_fd s = (0, Some oldtios, ?s1)"
    using tty get set by (simp add: setup_tios_def)
  obtain r0 s3 where init: "lxc_console_sigwinch_init e stdin_fd mfd ?s2 = (r0, s3)"
    by (cases "lxc_console_sigwinch_init e stdin_fd mfd ?s2")
  note ic = sigwinch_init_cases [OF init]
  have tr3: "trace s3 = trace s @ raw @ att"
    using ic(1) by (simp add: emit_def raw_def att_def)
  have stage1: "ttyfd < 0 \<Longrightarrow> fst r = ttyfd
          \<and> trace (snd r) = trace s @ raw @ cleanup_events 1 sg mfd ttyfd stdin_fd oldtios"
    using tty cmd
    by (simp add: r_def lxc_console_def tios console_err_traces(1) [where sg = sg and m = mfd and f = ttyfd]
        emit_def raw_def)
  have stage2: "0 \<le> ttyfd \<Longrightarrow> sigwinch_init_fails e \<Longrightarrow> fst r = - 1
          \<and> trace (snd r) = trace s @ raw @ att @ cleanup_events 2 sg mfd ttyfd stdin_fd oldtios"
  proof -
    assume a: "0 \<le> ttyfd" "sigwinch_init_fails e"
    with ic(2) have "r0 = None" by simp
    with a tty cmd init show ?thesis
      by (simp add: r_def lxc_console_def tios Let_def tr3
          console_err_traces(2) [where sg = sg])
  qed
  have later: "0 \<le> ttyfd \<Longrightarrow> \<not> sigwinch_init_fails e \<Longrightarrow>
      \<exists>ts0. r0 = Some ts0 \<and> sigfd ts0 = sg \<and> 0 \<le> sg \<and> stdinfd ts0 = stdin_fd \<and> masterfd ts0 = mfd"
    using ic(2) ic(3) by (cases r0) (auto simp add: sg_def)
  have stage34: "0 \<le> ttyfd \<Longrightarrow> \<not> sigwinch_init_fails e \<Longrightarrow>
       (mainloop_open_r e \<noteq> 0 \<longrightarrow>
            fst r = mainloop_open_r e
          \<and> trace (snd r) = trace s @ raw @ att @ wz
                             @ cleanup_events 3 sg mfd ttyfd stdin_fd oldtios)
       \<and> (mainloop_open_r e = 0 \<and> add_sigfd_r e \<noteq> 0 \<longrightarrow>
            fst r = add_sigfd_r e
          \<and> trace (snd r) = trace s @ raw @ att @ wz @ [EvMainloopAdd sg CbSigwinchFd]
                             @ cleanup_events 4 sg mfd ttyfd stdin_fd oldtios)
       \<and> (mainloop_open_r e = 0 \<and> add_sigfd_r e = 0 \<and> add_stdin_r e \<noteq> 0 \<longrightarrow>
            fst r = add_stdin_r e
          \<and> trace (snd r) = trace s @ raw @ att @ wz
                             @ [EvMainloopAdd sg CbSigwinchFd, EvMainloopAdd stdin_fd CbTtyStdin]
                             @ cleanup_events 4 sg mfd ttyfd stdin_fd oldtios)
       \<and> (mainloop_open_r e = 0 \<and> add_sigfd_r e = 0 \<and> add_stdin_r e = 0
            \<and> add_master_r e \<noteq> 0 \<longrightarrow>
            fst r = add_master_r e
          \<and> trace (snd r) = trace s @ raw @ att @ wz
                             @ [EvMainloopAdd sg CbSigwinchFd, EvMainloopAdd stdin_fd CbTtyStdin,
                                EvMainloopAdd mfd CbTtyMaster]
                             @ cleanup_events 4 sg mfd ttyfd stdin_fd oldtios)
       \<and> (mainloop_open_r e = 0 \<and> add_sigfd_r e = 0 \<and> add_stdin_r e = 0
            \<and> add_master_r e = 0 \<longrightarrow>
            fst r = mainloop_r e
          \<and> trace (snd r) = trace s @ raw @ att @ wz
                             @ [EvMainloopAdd sg CbSigwinchFd, EvMainloopAdd stdin_fd CbTtyStdin,
                                EvMainloopAdd mfd CbTtyMaster, EvMainloopRun]
                             @ cleanup_events 4 sg mfd ttyfd stdin_fd oldtios)"
  proof -
    assume a: "0 \<le> ttyfd" "\<not> sigwinch_init_fails e"
    from later [OF a] obtain ts0 where ts0: "r0 = Some ts0" "sigfd ts0 = sg" "0 \<le> sg"
      "stdinfd ts0 = stdin_fd" "masterfd ts0 = mfd" by blast
    let ?ts = "ts0\<lparr>escape := esc, winch_proxy := Some (cont_name c),
                    winch_proxy_lxcpath := Some (config_path c)\<rparr>"
    have sf: "0 \<le> sigfd ?ts" "sigfd ?ts = sg" using ts0 by simp_all
    note e3 = console_err_traces(3) [of ?ts, OF sf(1), unfolded sf(2)]
    note e4 = console_err_traces(4) [of ?ts, OF sf(1), unfolded sf(2)]
    show ?thesis
      using a tty cmd init ts0
      by (simp add: r_def lxc_console_def tios Let_def e3 e4 winsz_trace emit_def tr3 wz_def)
  qed
  from stage1 stage2 stage34 show ?thesis by blast
qed


text \<open>One run for each way out: the command channel fails, the signal descriptor cannot
  be created, the loop cannot be opened, each of the three handlers cannot be added, the
  loop returns an error.\<close>

theorem C4_attach_cleanup_order_witness:
  "fst (lxc_console (good_env\<lparr>cmd_console_r := (- 1, 0, 0)\<rparr>) cont1 0 0 1 2 1 sys0) = - 1
   \<and> trace (snd (lxc_console (good_env\<lparr>cmd_console_r := (- 1, 0, 0)\<rparr>) cont1 0 0 1 2 1 sys0))
       = [EvTcsetattr 0 (raw_tios cooked_tios), EvCmdConsole ''c1'' 0,
          EvTcsetattr 0 cooked_tios]
   \<and> fst (lxc_console (good_env\<lparr>signalfd_r := - 1\<rparr>) cont1 0 0 1 2 1 sys0) = - 1
   \<and> trace (snd (lxc_console (good_env\<lparr>signalfd_r := - 1\<rparr>) cont1 0 0 1 2 1 sys0))
       = [EvTcsetattr 0 (raw_tios cooked_tios), EvCmdConsole ''c1'' 0, EvBanner 1 1, EvSetsid,
          EvClose 7, EvClose 6, EvTcsetattr 0 cooked_tios]
   \<and> fst (lxc_console (good_env\<lparr>mainloop_open_r := - 1\<rparr>) cont1 0 0 1 2 1 sys0) = - 1
   \<and> trace (snd (lxc_console (good_env\<lparr>mainloop_open_r := - 1\<rparr>) cont1 0 0 1 2 1 sys0))
       = [EvTcsetattr 0 (raw_tios cooked_tios), EvCmdConsole ''c1'' 0, EvBanner 1 1, EvSetsid,
          EvSetWinsz 7 \<lparr>ws_row = 24, ws_col = 80\<rparr>,
          EvCmdWinch (Some ''c1'') (Some ''/var/lib/lxc''), EvMainloopOpen,
          EvClose 9, EvClose 7, EvClose 6, EvTcsetattr 0 cooked_tios]
   \<and> fst (lxc_console (good_env\<lparr>add_sigfd_r := - 1\<rparr>) cont1 0 0 1 2 1 sys0) = - 1
   \<and> trace (snd (lxc_console (good_env\<lparr>add_sigfd_r := - 1\<rparr>) cont1 0 0 1 2 1 sys0))
       = [EvTcsetattr 0 (raw_tios cooked_tios), EvCmdConsole ''c1'' 0, EvBanner 1 1, EvSetsid,
          EvSetWinsz 7 \<lparr>ws_row = 24, ws_col = 80\<rparr>,
          EvCmdWinch (Some ''c1'') (Some ''/var/lib/lxc''), EvMainloopOpen,
          EvMainloopAdd 9 CbSigwinchFd,
          EvMainloopClose, EvClose 9, EvClose 7, EvClose 6, EvTcsetattr 0 cooked_tios]
   \<and> fst (lxc_console (good_env\<lparr>add_stdin_r := - 1\<rparr>) cont1 0 0 1 2 1 sys0) = - 1
   \<and> trace (snd (lxc_console (good_env\<lparr>add_stdin_r := - 1\<rparr>) cont1 0 0 1 2 1 sys0))
       = [EvTcsetattr 0 (raw_tios cooked_tios), EvCmdConsole ''c1'' 0, EvBanner 1 1, EvSetsid,
          EvSetWinsz 7 \<lparr>ws_row = 24, ws_col = 80\<rparr>,
          EvCmdWinch (Some ''c1'') (Some ''/var/lib/lxc''), EvMainloopOpen,
          EvMainloopAdd 9 CbSigwinchFd, EvMainloopAdd 0 CbTtyStdin,
          EvMainloopClose, EvClose 9, EvClose 7, EvClose 6, EvTcsetattr 0 cooked_tios]
   \<and> fst (lxc_console (good_env\<lparr>add_master_r := - 1\<rparr>) cont1 0 0 1 2 1 sys0) = - 1
   \<and> trace (snd (lxc_console (good_env\<lparr>add_master_r := - 1\<rparr>) cont1 0 0 1 2 1 sys0))
       = [EvTcsetattr 0 (raw_tios cooked_tios), EvCmdConsole ''c1'' 0, EvBanner 1 1, EvSetsid,
          EvSetWinsz 7 \<lparr>ws_row = 24, ws_col = 80\<rparr>,
          EvCmdWinch (Some ''c1'') (Some ''/var/lib/lxc''), EvMainloopOpen,
          EvMainloopAdd 9 CbSigwinchFd, EvMainloopAdd 0 CbTtyStdin, EvMainloopAdd 7 CbTtyMaster,
          EvMainloopClose, EvClose 9, EvClose 7, EvClose 6, EvTcsetattr 0 cooked_tios]
   \<and> fst (lxc_console (good_env\<lparr>mainloop_r := - 1\<rparr>) cont1 0 0 1 2 1 sys0) = - 1
   \<and> trace (snd (lxc_console (good_env\<lparr>mainloop_r := - 1\<rparr>) cont1 0 0 1 2 1 sys0))
       = [EvTcsetattr 0 (raw_tios cooked_tios), EvCmdConsole ''c1'' 0, EvBanner 1 1, EvSetsid,
          EvSetWinsz 7 \<lparr>ws_row = 24, ws_col = 80\<rparr>,
          EvCmdWinch (Some ''c1'') (Some ''/var/lib/lxc''), EvMainloopOpen,
          EvMainloopAdd 9 CbSigwinchFd, EvMainloopAdd 0 CbTtyStdin, EvMainloopAdd 7 CbTtyMaster,
          EvMainloopRun,
          EvMainloopClose, EvClose 9, EvClose 7, EvClose 6, EvTcsetattr 0 cooked_tios]"
  using C4_attach_cleanup_order [where e = "good_env\<lparr>cmd_console_r := (- 1, 0, 0)\<rparr>" and stdin_fd = 0
      and oldtios = cooked_tios and ttyfd = "- 1" and tn = 0 and mfd = 0 and c = cont1 and ttynum = 0
      and stdout_fd = 1 and stderr_fd = 2 and esc = 1 and s = sys0]
    C4_attach_cleanup_order [where e = "good_env\<lparr>signalfd_r := - 1\<rparr>" and stdin_fd = 0
      and oldtios = cooked_tios and ttyfd = "6" and tn = 1 and mfd = 7 and c = cont1 and ttynum = 0
      and stdout_fd = 1 and stderr_fd = 2 and esc = 1 and s = sys0]
    C4_attach_cleanup_order [where e = "good_env\<lparr>mainloop_open_r := - 1\<rparr>" and stdin_fd = 0
      and oldtios = cooked_tios and ttyfd = "6" and tn = 1 and mfd = 7 and c = cont1 and ttynum = 0
      and stdout_fd = 1 and stderr_fd = 2 and esc = 1 and s = sys0]
    C4_attach_cleanup_order [where e = "good_env\<lparr>add_sigfd_r := - 1\<rparr>" and stdin_fd = 0
      and oldtios = cooked_tios and ttyfd = "6" and tn = 1 and mfd = 7 and c = cont1 and ttynum = 0
      and stdout_fd = 1 and stderr_fd = 2 and esc = 1 and s = sys0]
    C4_attach_cleanup_order [where e = "good_env\<lparr>add_stdin_r := - 1\<rparr>" and stdin_fd = 0
      and oldtios = cooked_tios and ttyfd = "6" and tn = 1 and mfd = 7 and c = cont1 and ttynum = 0
      and stdout_fd = 1 and stderr_fd = 2 and esc = 1 and s = sys0]
    C4_attach_cleanup_order [where e = "good_env\<lparr>add_master_r := - 1\<rparr>" and stdin_fd = 0
      and oldtios = cooked_tios and ttyfd = "6" and tn = 1 and mfd = 7 and c = cont1 and ttynum = 0
      and stdout_fd = 1 and stderr_fd = 2 and esc = 1 and s = sys0]
    C4_attach_cleanup_order [where e = "good_env\<lparr>mainloop_r := - 1\<rparr>" and stdin_fd = 0
      and oldtios = cooked_tios and ttyfd = "6" and tn = 1 and mfd = 7 and c = cont1 and ttynum = 0
      and stdout_fd = 1 and stderr_fd = 2 and esc = 1 and s = sys0]
  by (simp add: good_env_def cleanup_events_def sigwinch_init_fails_def cont1_def sys0_def)

text \<open>As the specification states it, the property fails: when the loop returns an error after a full set-up, the
  loop is closed before the tracker is torn down (its signal descriptor 9 is closed after
  \<open>EvMainloopClose\<close>), not the tracker first.\<close>

lemma attach_mainloop_error:
  "lxc_console (good_env\<lparr>mainloop_r := - 1\<rparr>) cont1 0 0 1 2 1 sys0
     = (- 1, \<lparr>lxc_ttys = [3], allocated = {3}, sigmask = {2, 28},
         trace = [EvTcsetattr 0 (raw_tios cooked_tios), EvCmdConsole ''c1'' 0, EvBanner 1 1,
                  EvSetsid, EvSetWinsz 7 \<lparr>ws_row = 24, ws_col = 80\<rparr>,
                  EvCmdWinch (Some ''c1'') (Some ''/var/lib/lxc''), EvMainloopOpen,
                  EvMainloopAdd 9 CbSigwinchFd, EvMainloopAdd 0 CbTtyStdin,
                  EvMainloopAdd 7 CbTtyMaster, EvMainloopRun,
                  EvMainloopClose, EvClose 9, EvClose 7, EvClose 6,
                  EvTcsetattr 0 cooked_tios]\<rparr>)"
  by (simp add: lxc_console_def setup_tios_def lxc_console_sigwinch_init_def
      lxc_console_winsz_def console_err4_def console_err3_def console_err2_def
      console_err1_def lxc_console_sigwinch_fini_def lxc_list_add_tail_def lxc_list_del_def
      emit_def good_env_def cont1_def sys0_def SIGWINCH_def Let_def insert_commute)

theorem C4_loop_closed_before_tracker_counterexample:
  "fst (lxc_console (good_env\<lparr>mainloop_r := - 1\<rparr>) cont1 0 0 1 2 1 sys0) = - 1
   \<and> \<not> precedes (EvClose 9) EvMainloopClose
         (trace (snd (lxc_console (good_env\<lparr>mainloop_r := - 1\<rparr>) cont1 0 0 1 2 1 sys0)))
   \<and> precedes EvMainloopClose (EvClose 9)
         (trace (snd (lxc_console (good_env\<lparr>mainloop_r := - 1\<rparr>) cont1 0 0 1 2 1 sys0)))
   \<and> drop 11 (trace (snd (lxc_console (good_env\<lparr>mainloop_r := - 1\<rparr>) cont1 0 0 1 2 1 sys0)))
       = [EvMainloopClose, EvClose 9, EvClose 7, EvClose 6, EvTcsetattr 0 cooked_tios]"
  by (simp add: attach_mainloop_error precedes_def)

text \<open>
  C5. For a negative \<^verbatim>\<open>*ttyreq\<close>, \<^verbatim>\<open>lxc_console_allocate\<close> takes the first slot, in
  index order, whose \<open>busy\<close> is 0: it stores the client's descriptor in that slot's
  \<open>busy\<close>, stores the slot's 1-based index in \<^verbatim>\<open>*ttyreq\<close> and returns the slot's master;
  nothing else changes. When every slot is busy it returns -1 and changes neither the
  configuration nor \<^verbatim>\<open>*ttyreq\<close>.
\<close>

theorem C5_allocate_any_tty:
  assumes "ttyreq < 0" and ps: "ps = pty_info (tty_info conf)"
  shows "(i < length ps \<and> busy (ps ! i) = 0 \<and> (\<forall>j<i. busy (ps ! j) \<noteq> 0) \<longrightarrow>
            lxc_console_allocate e conf sockfd ttyreq s
              = (master (ps ! i), int i + 1,
                 conf\<lparr>tty_info := (tty_info conf)\<lparr>pty_info := ps[i := (ps ! i)\<lparr>busy := sockfd\<rparr>]\<rparr>\<rparr>, s))
       \<and> ((\<forall>p \<in> set ps. busy p \<noteq> 0) \<longrightarrow>
            lxc_console_allocate e conf sockfd ttyreq s = (- 1, ttyreq, conf, s))"
proof (intro conjI impI)
  assume a: "i < length ps \<and> busy (ps ! i) = 0 \<and> (\<forall>j<i. busy (ps ! j) \<noteq> 0)"
  then have "search_tty ps (Suc 0) = Suc i"
    by (intro search_tty_first_free) auto
  with a assms show "lxc_console_allocate e conf sockfd ttyreq s
              = (master (ps ! i), int i + 1,
                 conf\<lparr>tty_info := (tty_info conf)\<lparr>pty_info := ps[i := (ps ! i)\<lparr>busy := sockfd\<rparr>]\<rparr>\<rparr>, s)"
    by (simp add: lxc_console_allocate_def out_tty_def nbtty_def Let_def)
next
  assume "\<forall>p \<in> set ps. busy p \<noteq> 0"
  then have "search_tty ps (Suc 0) = Suc (length ps)"
    by (intro search_tty_all_busy) auto
  with assms show "lxc_console_allocate e conf sockfd ttyreq s = (- 1, ttyreq, conf, s)"
    by (simp add: lxc_console_allocate_def nbtty_def Let_def)
qed

text \<open>Scenario S2 of the specification, second and third request: with slot 1 held by
  client 4, client 8 gets tty 2 and master 32; with both slots held, client 9 gets -1.\<close>

theorem C5_allocate_any_tty_witness:
  "lxc_console_allocate good_env conf2 8 (- 1) sys0
     = (32, 2,
        conf2\<lparr>tty_info := \<lparr>pty_info =
          [\<lparr>name = ''/dev/pts/5'', master = 30, slave = 31, busy = 4\<rparr>,
           \<lparr>name = ''/dev/pts/6'', master = 32, slave = 33, busy = 8\<rparr>]\<rparr>\<rparr>, sys0)
   \<and> lxc_console_allocate good_env
        (conf2\<lparr>tty_info := \<lparr>pty_info =
          [\<lparr>name = ''/dev/pts/5'', master = 30, slave = 31, busy = 4\<rparr>,
           \<lparr>name = ''/dev/pts/6'', master = 32, slave = 33, busy = 8\<rparr>]\<rparr>\<rparr>) 9 (- 1) sys0
     = (- 1, - 1,
        conf2\<lparr>tty_info := \<lparr>pty_info =
          [\<lparr>name = ''/dev/pts/5'', master = 30, slave = 31, busy = 4\<rparr>,
           \<lparr>name = ''/dev/pts/6'', master = 32, slave = 33, busy = 8\<rparr>]\<rparr>\<rparr>, sys0)"
  using C5_allocate_any_tty [of "- 1" "pty_info (tty_info conf2)" conf2 1 good_env 8 sys0]
        C5_allocate_any_tty [of "- 1"
          "[\<lparr>name = ''/dev/pts/5'', master = 30, slave = 31, busy = 4\<rparr>,
           \<lparr>name = ''/dev/pts/6'', master = 32, slave = 33, busy = 8\<rparr>]"
          "conf2\<lparr>tty_info := \<lparr>pty_info =
          [\<lparr>name = ''/dev/pts/5'', master = 30, slave = 31, busy = 4\<rparr>,
           \<lparr>name = ''/dev/pts/6'', master = 32, slave = 33, busy = 8\<rparr>]\<rparr>\<rparr>" 0 good_env 9 sys0]
  by (simp add: conf2_def)

text \<open>
  C6. When the initialisation of a tracker fails after \<^verbatim>\<open>malloc\<close> has handed out an
  address that is neither live nor registered, it returns NULL and leaves the process
  as it was: registry, signal mask and live allocations are those from before the call,
  both when blocking SIGWINCH fails and when creating the signal descriptor fails.
\<close>

theorem C6_sigwinch_init_rollback:
  assumes "malloc_ts_r e = Some p" and "p \<notin> set (lxc_ttys s)" and "p \<notin> allocated s"
  shows "(sigprocmask_r e \<noteq> 0 \<longrightarrow> lxc_console_sigwinch_init e srcfd dstfd s = (None, s))
       \<and> (sigprocmask_r e = 0 \<and> signalfd_r e < 0 \<longrightarrow>
            lxc_console_sigwinch_init e srcfd dstfd s = (None, s))"
  using assms
  by (simp add: lxc_console_sigwinch_init_def lxc_list_add_tail_def lxc_list_del_def Let_def)

text \<open>Both failures in the process \<open>sys0\<close>, \<^verbatim>\<open>malloc\<close> returning the address 5.\<close>

theorem C6_sigwinch_init_rollback_witness:
  "lxc_console_sigwinch_init (good_env\<lparr>sigprocmask_r := - 1\<rparr>) 0 7 sys0 = (None, sys0)
   \<and> lxc_console_sigwinch_init (good_env\<lparr>signalfd_r := - 1\<rparr>) 0 7 sys0 = (None, sys0)"
  using C6_sigwinch_init_rollback [of "good_env\<lparr>sigprocmask_r := - 1\<rparr>" 5 sys0 0 7]
        C6_sigwinch_init_rollback [of "good_env\<lparr>signalfd_r := - 1\<rparr>" 5 sys0 0 7]
  by (simp add: good_env_def sys0_def)

text \<open>
  C7. In the console pump, when the readable descriptor is the container master and the
  read returns \<open>r > 0\<close> bytes, the first \<open>r\<close> bytes of the buffer are offered to the log
  (exactly when \<open>log_fd\<close> is not negative) and then to the peer (exactly when \<open>peer\<close> is
  not negative), after a write to the master in the case that the peer is the very same
  descriptor; which writes are made, and with which bytes, is the same whatever the
  writes return, so a short write to the peer takes nothing from what is offered to the
  log, and the other way round.
\<close>

theorem C7_console_pump_fanout:
  assumes "fd = con_master c" and "0 < fst rd" and "nat (fst rd) \<le> length (snd rd)"
  shows "snd (snd (lxc_console_cb_con rd wm wl wp fd c))
           = (if fd = peer c then [EvWrite (con_master c) (take (nat (fst rd)) (snd rd))] else [])
             @ (if 0 \<le> log_fd c then [EvWrite (log_fd c) (take (nat (fst rd)) (snd rd))] else [])
             @ (if 0 \<le> peer c then [EvWrite (peer c) (take (nat (fst rd)) (snd rd))] else [])
       \<and> length (take (nat (fst rd)) (snd rd)) = nat (fst rd)
       \<and> snd (snd (lxc_console_cb_con rd wm' wl' wp' fd c))
           = snd (snd (lxc_console_cb_con rd wm wl wp fd c))
       \<and> fst (lxc_console_cb_con rd wm wl wp fd c) = 0"
  using assms by (simp add: lxc_console_cb_con_def Let_def)

text \<open>Three bytes read from the master 20; the write to the peer 11 is short (it returns
  1), the log 13 is offered all three bytes all the same.\<close>

theorem C7_console_pump_fanout_witness:
  "snd (snd (lxc_console_cb_con (3, [0x61, 0x62, 0x63, 0, 0]) 3 3 1 20
         (idle_console\<lparr>peer := 11, log_fd := 13\<rparr>)))
     = [EvWrite 13 [0x61, 0x62, 0x63], EvWrite 11 [0x61, 0x62, 0x63]]"
  using C7_console_pump_fanout [of 20 "idle_console\<lparr>peer := 11, log_fd := 13\<rparr>"
          "(3, [0x61, 0x62, 0x63, 0, 0])" 3 3 1 3 3 1]
  by (simp add: idle_console_def)

text \<open>
  C8. Applying \<^verbatim>\<open>lxc_console_free\<close> a second time with the same descriptor leaves the
  configuration as the first application left it: no slot's \<open>busy\<close> and no field of the
  console changes, nor do the registry, the signal mask and the live trackers. For every
  client descriptor (a descriptor is not negative; the statement needs only that it is
  not -1) the second application does nothing at all: in particular it does not run the
  proxy teardown again.
\<close>

theorem C8_free_twice:
  "fst (lxc_console_free (fst (lxc_console_free conf fd s)) fd (snd (lxc_console_free conf fd s)))
     = fst (lxc_console_free conf fd s)
   \<and> lxc_ttys (snd (lxc_console_free (fst (lxc_console_free conf fd s)) fd
                       (snd (lxc_console_free conf fd s))))
     = lxc_ttys (snd (lxc_console_free conf fd s))
   \<and> sigmask (snd (lxc_console_free (fst (lxc_console_free conf fd s)) fd
                       (snd (lxc_console_free conf fd s))))
     = sigmask (snd (lxc_console_free conf fd s))
   \<and> allocated (snd (lxc_console_free (fst (lxc_console_free conf fd s)) fd
                       (snd (lxc_console_free conf fd s))))
     = allocated (snd (lxc_console_free conf fd s))
   \<and> (fd \<noteq> - 1 \<longrightarrow>
        lxc_console_free (fst (lxc_console_free conf fd s)) fd (snd (lxc_console_free conf fd s))
          = lxc_console_free conf fd s)"
proof -
  obtain conf1 s1 where r1: "lxc_console_free conf fd s = (conf1, s1)"
    by (cases "lxc_console_free conf fd s")
  have c1: "conf1 = conf\<lparr>tty_info := (tty_info conf)\<lparr>pty_info := free_ttys fd 0 (pty_info (tty_info conf))\<rparr>,
            console := (if busy (peerpty (console conf)) = fd
                        then fst (lxc_console_peer_proxy_free (console conf)
                               (emit [EvMainloopDel (slave (peerpty (console conf)))] s))
                        else console conf)\<rparr>"
    using free_conf [of conf fd s] r1 by simp
  have slots: "free_ttys fd 0 (pty_info (tty_info conf1)) = pty_info (tty_info conf1)"
    by (simp add: c1 free_ttys_idem)
  have ti: "conf1\<lparr>tty_info := (tty_info conf1)\<lparr>pty_info := pty_info (tty_info conf1)\<rparr>\<rparr> = conf1"
    by simp
  show ?thesis
  proof (cases "busy (peerpty (console conf1)) = fd")
    case False
    then have "lxc_console_free conf1 fd s1 = (conf1, s1)"
      by (simp add: lxc_console_free_def Let_def slots)
    with r1 show ?thesis by simp
  next
    case True
    have ran: "busy (peerpty (console conf)) = fd"
    proof (rule ccontr)
      assume "busy (peerpty (console conf)) \<noteq> fd"
      then have "console conf1 = console conf" by (simp add: c1)
      with True \<open>busy (peerpty (console conf)) \<noteq> fd\<close> show False by simp
    qed
    then have con1: "console conf1 = fst (lxc_console_peer_proxy_free (console conf)
                               (emit [EvMainloopDel (slave (peerpty (console conf)))] s))"
      by (simp add: c1)
    have "busy (peerpty (console conf1)) = - 1"
      by (simp add: con1 proxy_free_fields)
    with True have fd: "fd = - 1" by simp
    have "lxc_console_free conf1 fd s1
            = (conf1, emit [EvClose (- 1), EvClose (- 1)]
                        (emit [EvMainloopDel (slave (peerpty (console conf1)))] s1))"
      using True
      by (simp add: lxc_console_free_def Let_def slots con1 proxy_free_again)
    with r1 fd show ?thesis by (simp add: emit_def)
  qed
qed

text \<open>Client 4 holds slot 1 and the console; the second free of 4 changes nothing.\<close>

lemma free_attached:
  "lxc_console_free (conf2\<lparr>console := attached_console\<rparr>) 4 sys0
     = (conf2\<lparr>tty_info := \<lparr>pty_info =
          [\<lparr>name = ''/dev/pts/5'', master = 30, slave = 31, busy = 0\<rparr>,
           \<lparr>name = ''/dev/pts/6'', master = 32, slave = 33, busy = 0\<rparr>]\<rparr>\<rparr>,
        \<lparr>lxc_ttys = [], allocated = {}, sigmask = {2},
         trace = [EvMainloopDel 11, EvClose 9, EvClose 10, EvClose 11]\<rparr>)"
  by (simp add: lxc_console_free_def lxc_console_peer_proxy_free_def
      lxc_console_sigwinch_fini_def lxc_list_del_def emit_def free_ttys_map release_def
      conf2_def attached_console_def idle_console_def tracker3_def sys0_def Let_def)

theorem C8_free_twice_witness:
  "lxc_console_free (fst (lxc_console_free (conf2\<lparr>console := attached_console\<rparr>) 4 sys0)) 4
       (snd (lxc_console_free (conf2\<lparr>console := attached_console\<rparr>) 4 sys0))
     = (conf2\<lparr>tty_info := \<lparr>pty_info =
          [\<lparr>name = ''/dev/pts/5'', master = 30, slave = 31, busy = 0\<rparr>,
           \<lparr>name = ''/dev/pts/6'', master = 32, slave = 33, busy = 0\<rparr>]\<rparr>\<rparr>,
        \<lparr>lxc_ttys = [], allocated = {}, sigmask = {2},
         trace = [EvMainloopDel 11, EvClose 9, EvClose 10, EvClose 11]\<rparr>)"
  using C8_free_twice [of "conf2\<lparr>console := attached_console\<rparr>" 4 sys0]
  by (simp add: free_attached)

text \<open>
  C9. The console invariant (\<open>peerpty.busy >= 0\<close> if and only if
  \<open>peer == peerpty.slave\<close> and the console has a tracker) does not hold after every
  console creation. When the peer terminal cannot be put into raw mode (\<^verbatim>\<open>tcsetattr\<close>
  fails), or the buffer for its saved settings cannot be allocated, after the tracker has
  been installed, \<^verbatim>\<open>lxc_console_peer_default\<close> closes the peer and resets it to -1 but
  leaves the tracker in \<open>tty_state\<close>: creation returns 0 with
  \<open>peer = peerpty.slave = -1\<close>, \<open>peerpty.busy = -1\<close> and a tracker, and the next
  request for the console is refused.
\<close>

theorem C9_create_leaves_tracker:
  "console_inv (console (conf2\<lparr>console := new_console\<rparr>))
   \<and> lxc_console_create (good_env\<lparr>tcsetattr_r := - 1\<rparr>) (conf2\<lparr>console := new_console\<rparr>) sys0
     = (0,
        conf2\<lparr>console := new_console\<lparr>con_master := 10, con_slave := 11,
           con_name := ''/dev/pts/4'',
           tty_state := Some \<lparr>node = 5, stdinfd = 12, stdoutfd = 0, masterfd = 10, escape = 0,
              saw_escape = 0, winch_proxy = None, winch_proxy_lxcpath = None, sigfd = 9,
              oldmask = {2, 28}\<rparr>\<rparr>\<rparr>,
        \<lparr>lxc_ttys = [3, 5], allocated = {3, 5}, sigmask = {2, 28},
         trace = [EvClose 12, EvSetWinsz 10 \<lparr>ws_row = 24, ws_col = 80\<rparr>,
                  EvTcsetattr 12 (raw_tios cooked_tios), EvClose 12]\<rparr>)
   \<and> \<not> console_inv (console (fst (snd (lxc_console_create (good_env\<lparr>tcsetattr_r := - 1\<rparr>)
            (conf2\<lparr>console := new_console\<rparr>) sys0))))
   \<and> fst (lxc_console_create (good_env\<lparr>malloc_tios_r := False\<rparr>)
            (conf2\<lparr>console := new_console\<rparr>) sys0) = 0
   \<and> \<not> console_inv (console (fst (snd (lxc_console_create (good_env\<lparr>malloc_tios_r := False\<rparr>)
            (conf2\<lparr>console := new_console\<rparr>) sys0))))
   \<and> fst (lxc_console_allocate good_env
            (fst (snd (lxc_console_create (good_env\<lparr>tcsetattr_r := - 1\<rparr>)
                         (conf2\<lparr>console := new_console\<rparr>) sys0))) 8 0
            (snd (snd (lxc_console_create (good_env\<lparr>tcsetattr_r := - 1\<rparr>)
                         (conf2\<lparr>console := new_console\<rparr>) sys0)))) = - 1"
proof -
  have a: "lxc_console_create (good_env\<lparr>tcsetattr_r := - 1\<rparr>) (conf2\<lparr>console := new_console\<rparr>) sys0
     = (0,
        conf2\<lparr>console := new_console\<lparr>con_master := 10, con_slave := 11,
           con_name := ''/dev/pts/4'',
           tty_state := Some \<lparr>node = 5, stdinfd = 12, stdoutfd = 0, masterfd = 10, escape = 0,
              saw_escape = 0, winch_proxy = None, winch_proxy_lxcpath = None, sigfd = 9,
              oldmask = {2, 28}\<rparr>\<rparr>\<rparr>,
        \<lparr>lxc_ttys = [3, 5], allocated = {3, 5}, sigmask = {2, 28},
         trace = [EvClose 12, EvSetWinsz 10 \<lparr>ws_row = 24, ws_col = 80\<rparr>,
                  EvTcsetattr 12 (raw_tios cooked_tios), EvClose 12]\<rparr>)"
    by (simp add: lxc_console_create_def lxc_console_peer_default_def setup_tios_def
      peer_err1_def lxc_console_sigwinch_init_def lxc_console_winsz_def lxc_list_add_tail_def
      emit_def good_env_def conf2_def new_console_def sys0_def SIGWINCH_def Let_def
      insert_commute)
  have b: "lxc_console_create (good_env\<lparr>malloc_tios_r := False\<rparr>) (conf2\<lparr>console := new_console\<rparr>) sys0
     = (0,
        conf2\<lparr>console := new_console\<lparr>con_master := 10, con_slave := 11,
           con_name := ''/dev/pts/4'',
           tty_state := Some \<lparr>node = 5, stdinfd = 12, stdoutfd = 0, masterfd = 10, escape = 0,
              saw_escape = 0, winch_proxy = None, winch_proxy_lxcpath = None, sigfd = 9,
              oldmask = {2, 28}\<rparr>\<rparr>\<rparr>,
        \<lparr>lxc_ttys = [3, 5], allocated = {3, 5}, sigmask = {2, 28},
         trace = [EvClose 12, EvSetWinsz 10 \<lparr>ws_row = 24, ws_col = 80\<rparr>, EvClose 12]\<rparr>)"
    by (simp add: lxc_console_create_def lxc_console_peer_default_def setup_tios_def
      peer_err1_def lxc_console_sigwinch_init_def lxc_console_winsz_def lxc_list_add_tail_def
      emit_def good_env_def conf2_def new_console_def sys0_def SIGWINCH_def Let_def
      insert_commute)
  have c: "\<not> console_inv (new_console\<lparr>con_master := 10, con_slave := 11,
           con_name := ''/dev/pts/4'',
           tty_state := Some \<lparr>node = 5, stdinfd = 12, stdoutfd = 0, masterfd = 10, escape = 0,
              saw_escape = 0, winch_proxy = None, winch_proxy_lxcpath = None, sigfd = 9,
              oldmask = {2, 28}\<rparr>\<rparr>)"
    by (simp add: console_inv_def new_console_def)
  have d: "console_inv new_console"
    by (simp add: console_inv_def new_console_def)
  have e: "fst (lxc_console_allocate good_env
        (conf2\<lparr>console := new_console\<lparr>con_master := 10, con_slave := 11,
           con_name := ''/dev/pts/4'',
           tty_state := Some \<lparr>node = 5, stdinfd = 12, stdoutfd = 0, masterfd = 10, escape = 0,
              saw_escape = 0, winch_proxy = None, winch_proxy_lxcpath = None, sigfd = 9,
              oldmask = {2, 28}\<rparr>\<rparr>\<rparr>) 8 0 s) = - 1" for s
    by (simp add: lxc_console_allocate_def lxc_console_peer_proxy_alloc_def new_console_def)
  show ?thesis
    by (simp add: a b c d e)
qed

text \<open>The fields of the console that creation leaves behind on that input.\<close>

theorem C9_create_leaves_tracker_witness:
  "tty_state (console (fst (snd (lxc_console_create (good_env\<lparr>tcsetattr_r := - 1\<rparr>)
       (conf2\<lparr>console := new_console\<rparr>) sys0)))) \<noteq> None
   \<and> peer (console (fst (snd (lxc_console_create (good_env\<lparr>tcsetattr_r := - 1\<rparr>)
       (conf2\<lparr>console := new_console\<rparr>) sys0)))) = - 1
   \<and> slave (peerpty (console (fst (snd (lxc_console_create (good_env\<lparr>tcsetattr_r := - 1\<rparr>)
       (conf2\<lparr>console := new_console\<rparr>) sys0))))) = - 1
   \<and> busy (peerpty (console (fst (snd (lxc_console_create (good_env\<lparr>tcsetattr_r := - 1\<rparr>)
       (conf2\<lparr>console := new_console\<rparr>) sys0))))) = - 1"
  using C9_create_leaves_tracker by (simp add: new_console_def)

text \<open>The rest of the sentence holds. Every free keeps the invariant, and so does every
  allocate for a client, whose descriptor is not negative; a successful proxy allocation
  sets \<open>tty_state\<close>, \<open>peer = peerpty.slave\<close> and \<open>peerpty.busy\<close> together, the
  teardown clears all three together. A creation in which the set-up of the peer does not
  fail establishes the invariant (lemma \<open>create_inv\<close>).\<close>

lemma console_inv_preserved:
  "(console_inv (console conf) \<and> 0 \<le> sockfd
      \<longrightarrow> console_inv (console (fst (snd (snd (lxc_console_allocate e conf sockfd ttyreq s))))))
   \<and> (console_inv (console conf)
      \<longrightarrow> console_inv (console (fst (lxc_console_free conf fd s))))
   \<and> (fst (lxc_console_peer_proxy_alloc e c sockfd s) = 0
      \<longrightarrow> tty_state (fst (snd (lxc_console_peer_proxy_alloc e c sockfd s))) \<noteq> None
        \<and> peer (fst (snd (lxc_console_peer_proxy_alloc e c sockfd s)))
            = slave (peerpty (fst (snd (lxc_console_peer_proxy_alloc e c sockfd s))))
        \<and> busy (peerpty (fst (snd (lxc_console_peer_proxy_alloc e c sockfd s)))) = sockfd)
   \<and> tty_state (fst (lxc_console_peer_proxy_free c s)) = None
   \<and> peer (fst (lxc_console_peer_proxy_free c s)) = - 1
   \<and> busy (peerpty (fst (lxc_console_peer_proxy_free c s))) = - 1"
proof -
  have alloc: "console_inv (console conf) \<and> 0 \<le> sockfd
      \<longrightarrow> console_inv (console (fst (snd (snd (lxc_console_allocate e conf sockfd ttyreq s)))))"
    by (simp add: allocate_console proxy_alloc_inv)
  have free: "console_inv (console conf)
      \<longrightarrow> console_inv (console (fst (lxc_console_free conf fd s)))"
    by (simp add: free_console proxy_free_inv)
  have teardown: "tty_state (fst (lxc_console_peer_proxy_free c s)) = None
      \<and> peer (fst (lxc_console_peer_proxy_free c s)) = - 1
      \<and> busy (peerpty (fst (lxc_console_peer_proxy_free c s))) = - 1"
    by (simp add: proxy_free_fields)
  from alloc free proxy_alloc_success [of e c sockfd s] teardown
  show ?thesis by blast
qed

text \<open>
  C10. When the console has no proxy client (\<open>peerpty.busy\<close> is -1),
  \<^verbatim>\<open>lxc_console_free\<close> called with the descriptor -1 takes the console branch and runs
  the whole proxy teardown: it removes \<open>peerpty.slave\<close> from the event loop, destroys the
  tracker if the console has one, closes both descriptors of \<open>peerpty\<close> and resets
  \<open>peer\<close>, \<open>tty_state\<close> and the fields of \<open>peerpty\<close>.
\<close>

theorem C10_free_minus_one_tears_down:
  assumes "busy (peerpty (console conf)) = - 1"
  shows "fst (lxc_console_free conf (- 1) s)
           = conf\<lparr>tty_info := (tty_info conf)\<lparr>pty_info :=
                                 free_ttys (- 1) 0 (pty_info (tty_info conf))\<rparr>,
                  console := (console conf)\<lparr>tty_state := None,
                     peerpty := \<lparr>name = [], master = - 1, slave = - 1, busy = - 1\<rparr>,
                     peer := - 1\<rparr>\<rparr>
       \<and> trace (snd (lxc_console_free conf (- 1) s))
           = trace s @ [EvMainloopDel (slave (peerpty (console conf)))]
             @ (case tty_state (console conf) of
                  Some ts \<Rightarrow> (if 0 \<le> sigfd ts then [EvClose (sigfd ts)] else [])
                | None \<Rightarrow> [])
             @ [EvClose (master (peerpty (console conf))), EvClose (slave (peerpty (console conf)))]
       \<and> (\<forall>ts. tty_state (console conf) = Some ts \<longrightarrow>
             lxc_ttys (snd (lxc_console_free conf (- 1) s)) = lxc_list_del (lxc_ttys s) (node ts)
           \<and> sigmask (snd (lxc_console_free conf (- 1) s)) = oldmask ts
           \<and> allocated (snd (lxc_console_free conf (- 1) s)) = allocated s - {node ts})"
proof -
  have a: "fst (lxc_console_free conf (- 1) s)
           = conf\<lparr>tty_info := (tty_info conf)\<lparr>pty_info :=
                                 free_ttys (- 1) 0 (pty_info (tty_info conf))\<rparr>,
                  console := (console conf)\<lparr>tty_state := None,
                     peerpty := \<lparr>name = [], master = - 1, slave = - 1, busy = - 1\<rparr>,
                     peer := - 1\<rparr>\<rparr>"
    using assms by (simp add: free_conf proxy_free_fields)
  have s': "snd (lxc_console_free conf (- 1) s)
              = snd (lxc_console_peer_proxy_free (console conf)
                       (emit [EvMainloopDel (slave (peerpty (console conf)))] s))"
    using assms by (simp add: lxc_console_free_def Let_def split: prod.splits)
  have b: "trace (snd (lxc_console_free conf (- 1) s))
           = trace s @ [EvMainloopDel (slave (peerpty (console conf)))]
             @ (case tty_state (console conf) of
                  Some ts \<Rightarrow> (if 0 \<le> sigfd ts then [EvClose (sigfd ts)] else [])
                | None \<Rightarrow> [])
             @ [EvClose (master (peerpty (console conf))), EvClose (slave (peerpty (console conf)))]"
    by (simp add: s' proxy_free_trace emit_def)
  have c: "\<forall>ts. tty_state (console conf) = Some ts \<longrightarrow>
             lxc_ttys (snd (lxc_console_free conf (- 1) s)) = lxc_list_del (lxc_ttys s) (node ts)
           \<and> sigmask (snd (lxc_console_free conf (- 1) s)) = oldmask ts
           \<and> allocated (snd (lxc_console_free conf (- 1) s)) = allocated s - {node ts}"
    by (simp add: s' lxc_console_peer_proxy_free_def lxc_console_sigwinch_fini_def emit_def
        Let_def)
  from a b c show ?thesis by blast
qed

text \<open>On a console in the foreground the call destroys the tracker and forgets the peer
  terminal 12.\<close>

theorem C10_free_minus_one_tears_down_witness:
  "lxc_console_free (conf2\<lparr>console := foreground_console\<rparr>) (- 1) sys0
     = (conf2\<lparr>console := idle_console\<lparr>path := Some ''/dev/tty'', tios := Some cooked_tios\<rparr>\<rparr>,
        \<lparr>lxc_ttys = [], allocated = {}, sigmask = {2},
         trace = [EvMainloopDel (- 1), EvClose 9, EvClose (- 1), EvClose (- 1)]\<rparr>)"
proof -
  have "busy (peerpty (console (conf2\<lparr>console := foreground_console\<rparr>))) = - 1"
    by (simp add: foreground_console_def idle_console_def)
  from C10_free_minus_one_tears_down [OF this, of sys0]
  show ?thesis
    by (simp add: prod_eq_iff free_ttys_map release_def conf2_def foreground_console_def
        idle_console_def tracker3_def sys0_def lxc_list_del_def)
qed

end
